theory Spec2Isabelle
  imports Main "HOL-Library.AList"
begin

section \<open>Python strings\<close>

text \<open>
  The script works on Python \<open>str\<close> values. They are modelled as HOL strings (lists of
  8-bit characters). The string methods the script calls are written out below as
  Python defines them on ASCII text; bytes above 127 are ordinary characters for every
  one of them (no Unicode whitespace, case mapping or line separator is modelled).
  A text outside ASCII is the list of its UTF-8 bytes.
\<close>

definition LF :: char where
  "LF = CHR 0x0A"

definition CR :: char where
  "CR = CHR 0x0D"

definition TAB :: char where
  "TAB = CHR 0x09"

definition DQ :: char where
  "DQ = CHR 0x22"

text \<open>\<open>str.isspace\<close> on one ASCII character: tab, line feed, vertical tab, form feed,
  carriage return, the four separators 0x1C..0x1F and the space.\<close>

definition whitespace :: "char list" where
  "whitespace = [CHR 0x09, CHR 0x0A, CHR 0x0B, CHR 0x0C, CHR 0x0D,
                 CHR 0x1C, CHR 0x1D, CHR 0x1E, CHR 0x1F, CHR 0x20]"

definition is_space :: "char \<Rightarrow> bool" where
  "is_space c = (c \<in> set whitespace)"

text \<open>\<open>s.strip()\<close>: leading and trailing whitespace removed.\<close>

definition strip :: "string \<Rightarrow> string" where
  "strip s = rev (dropWhile is_space (rev (dropWhile is_space s)))"

text \<open>\<open>s.lower()\<close>: the 26 ASCII capitals are mapped to their small letters.\<close>

definition ascii_uppercase :: string where
  "ascii_uppercase = ''ABCDEFGHIJKLMNOPQRSTUVWXYZ''"

definition ascii_lowercase :: string where
  "ascii_lowercase = ''abcdefghijklmnopqrstuvwxyz''"

definition lower_char :: "char \<Rightarrow> char" where
  "lower_char c =
     (case map_of (zip ascii_uppercase ascii_lowercase) c of
        Some d \<Rightarrow> d
      | None \<Rightarrow> c)"

definition lower :: "string \<Rightarrow> string" where
  "lower s = map lower_char s"

definition is_upper :: "char \<Rightarrow> bool" where
  "is_upper c = (c \<in> set ascii_uppercase)"

text \<open>\<open>s.startswith(p)\<close> and \<open>s.endswith(p)\<close>.\<close>

fun startswith :: "string \<Rightarrow> string \<Rightarrow> bool" where
  "startswith s [] = True"
| "startswith [] (p # ps) = False"
| "startswith (c # cs) (p # ps) = (c = p \<and> startswith cs ps)"

definition endswith :: "string \<Rightarrow> string \<Rightarrow> bool" where
  "endswith s p = startswith (rev s) (rev p)"

text \<open>\<open>sub in s\<close>: \<open>sub\<close> occurs in \<open>s\<close> as a contiguous substring.\<close>

fun contains :: "string \<Rightarrow> string \<Rightarrow> bool" where
  "contains sub [] = (sub = [])"
| "contains sub (c # cs) = (startswith (c # cs) sub \<or> contains sub cs)"

text \<open>\<open>s.replace(old, new)\<close>: every non-overlapping occurrence of \<open>old\<close>, found from the
  left, is replaced; an empty \<open>old\<close> matches before every character and at the end.\<close>

fun replace_nonempty :: "string \<Rightarrow> string \<Rightarrow> string \<Rightarrow> string" where
  "replace_nonempty old new [] = []"
| "replace_nonempty old new (c # cs) =
     (if startswith (c # cs) old
      then new @ replace_nonempty old new (drop (length old - 1) cs)
      else c # replace_nonempty old new cs)"

definition str_replace :: "string \<Rightarrow> string \<Rightarrow> string \<Rightarrow> string" where
  "str_replace old new s =
     (if old = [] then new @ concat (map (\<lambda>c. c # new) s)
      else replace_nonempty old new s)"

text \<open>\<open>sep.join(xs)\<close>.\<close>

fun str_join :: "string \<Rightarrow> string list \<Rightarrow> string" where
  "str_join sep [] = []"
| "str_join sep [x] = x"
| "str_join sep (x # y # ys) = x @ sep @ str_join sep (y # ys)"

text \<open>\<open>s.split(c)\<close> for a one-character separator: the pieces between the separators,
  empty pieces included; the empty string gives one empty piece.\<close>

fun split_on :: "char \<Rightarrow> string \<Rightarrow> string list" where
  "split_on sep [] = [[]]"
| "split_on sep (c # cs) =
     (if c = sep then [] # split_on sep cs
      else (case split_on sep cs of
              [] \<Rightarrow> [[c]]
            | l # ls \<Rightarrow> (c # l) # ls))"

text \<open>\<open>s.splitlines()\<close>: the line boundaries are line feed, carriage return (a carriage
  return followed by a line feed is one boundary), vertical tab, form feed and the
  separators 0x1C, 0x1D and 0x1E; no empty last line is produced.\<close>

definition line_boundaries :: "char list" where
  "line_boundaries = [CHR 0x0A, CHR 0x0D, CHR 0x0B, CHR 0x0C, CHR 0x1C, CHR 0x1D, CHR 0x1E]"

definition is_boundary :: "char \<Rightarrow> bool" where
  "is_boundary c = (c \<in> set line_boundaries)"

fun splitlines :: "string \<Rightarrow> string list" where
  "splitlines [] = []"
| "splitlines [c] = (if is_boundary c then [[]] else [[c]])"
| "splitlines (c # d # ds) =
     (if c = CR \<and> d = LF then [] # splitlines ds
      else if is_boundary c then [] # splitlines (d # ds)
      else (case splitlines (d # ds) of
              [] \<Rightarrow> [[c]]
            | l # ls \<Rightarrow> (c # l) # ls))"

text \<open>Reading a text file line by line (\<open>for line in f\<close>) with Python's default
  universal newlines: every \<open>\r\n\<close> and every lone \<open>\r\<close> is read as \<open>\n\<close>, and the lines
  keep their final \<open>\n\<close>; a last line without one is a line too, unless it is empty.
  \<open>file_lines\<close> gives the lines of a file from its bytes.\<close>

fun universal_newlines :: "string \<Rightarrow> string" where
  "universal_newlines [] = []"
| "universal_newlines [c] = (if c = CR then [LF] else [c])"
| "universal_newlines (c # d # ds) =
     (if c = CR \<and> d = LF then LF # universal_newlines ds
      else if c = CR then LF # universal_newlines (d # ds)
      else c # universal_newlines (d # ds))"

fun keepends :: "string \<Rightarrow> string list" where
  "keepends [] = []"
| "keepends (c # cs) =
     (if c = LF then [LF] # keepends cs
      else (case keepends cs of
              [] \<Rightarrow> [[c]]
            | l # ls \<Rightarrow> (c # l) # ls))"

definition file_lines :: "string \<Rightarrow> string list" where
  "file_lines s = keepends (universal_newlines s)"

text \<open>Decoding a file as UTF-8 (\<open>open(..., encoding="utf-8")\<close>): the bytes must be
  well-formed UTF-8, as Python's strict decoder demands: one byte below 0x80; a lead
  byte 0xC2..0xDF and one continuation byte; a lead byte 0xE0..0xEF and two (after
  0xE0 the first is at least 0xA0, after 0xED at most 0x9F); a lead byte 0xF0..0xF4 and
  three (after 0xF0 the first is at least 0x90, after 0xF4 at most 0x8F). Anything else
  raises \<open>UnicodeDecodeError\<close>. \<open>utf8_tail lo hi n cs\<close> checks a first trailing byte in
  \<open>lo..hi\<close> and \<open>n\<close> more continuation bytes, and answers how many bytes that makes.\<close>

definition byte :: "char \<Rightarrow> nat" where
  "byte c = of_char c"

definition continuation :: "char \<Rightarrow> bool" where
  "continuation c = (0x80 \<le> byte c \<and> byte c \<le> 0xBF)"

fun utf8_tail :: "nat \<Rightarrow> nat \<Rightarrow> nat \<Rightarrow> string \<Rightarrow> nat option" where
  "utf8_tail lo hi n [] = None"
| "utf8_tail lo hi n (c # cs) =
     (if lo \<le> byte c \<and> byte c \<le> hi \<and> n \<le> length cs \<and> list_all continuation (take n cs)
      then Some (Suc n) else None)"

definition utf8_sequence :: "char \<Rightarrow> string \<Rightarrow> nat option" where
  "utf8_sequence c cs =
     (if byte c < 0x80 then Some 0
      else if 0xC2 \<le> byte c \<and> byte c \<le> 0xDF then utf8_tail 0x80 0xBF 0 cs
      else if byte c = 0xE0 then utf8_tail 0xA0 0xBF 1 cs
      else if byte c = 0xED then utf8_tail 0x80 0x9F 1 cs
      else if 0xE1 \<le> byte c \<and> byte c \<le> 0xEF then utf8_tail 0x80 0xBF 1 cs
      else if byte c = 0xF0 then utf8_tail 0x90 0xBF 2 cs
      else if 0xF1 \<le> byte c \<and> byte c \<le> 0xF3 then utf8_tail 0x80 0xBF 2 cs
      else if byte c = 0xF4 then utf8_tail 0x80 0x8F 2 cs
      else None)"

fun valid_utf8 :: "string \<Rightarrow> bool" where
  "valid_utf8 [] = True"
| "valid_utf8 (c # cs) =
     (case utf8_sequence c cs of
        None \<Rightarrow> False
      | Some n \<Rightarrow> valid_utf8 (drop n cs))"

text \<open>\<open>x or d\<close> for an optional string \<open>x\<close>: \<open>None\<close> and the empty string are false.\<close>

fun str_or :: "string option \<Rightarrow> string \<Rightarrow> string" where
  "str_or None d = d"
| "str_or (Some s) d = (if s = [] then d else s)"

section \<open>The operating system as the script sees it\<close>

text \<open>
  A file system is an association list from absolute paths (lists of components, the
  root being the empty list) to entries. Path strings are resolved lexically against
  the working directory, as \<open>pathlib\<close> does: empty and \<open>.\<close> components are dropped and
  \<open>..\<close> removes the component before it. A file holds bytes. Symbolic links and
  permissions are not modelled.
\<close>

datatype entry = File string | Dir

type_synonym path = "string list"

type_synonym filesystem = "(path \<times> entry) list"

datatype exn =
    EOFError
  | FileNotFoundError
  | IsADirectoryError
  | NotADirectoryError
  | FileExistsError
  | IndexError
  | KeyError
  | UnicodeDecodeError
  | CalledProcessError "string list" int

text \<open>How a run of the script ends early: \<open>sys.exit(n)\<close>, or an exception nobody catches.\<close>

datatype abort = SysExit int | Uncaught exn

definition path_parts :: "string \<Rightarrow> string list" where
  "path_parts s = filter (\<lambda>c. c \<noteq> [] \<and> c \<noteq> ''.'') (split_on (CHR ''/'') s)"

text \<open>\<open>Path(s).name\<close>: the last component, or the empty string when there is none.\<close>

definition path_name :: "string \<Rightarrow> string" where
  "path_name s = (let ps = path_parts s in if ps = [] then [] else last ps)"

fun normalise :: "path \<Rightarrow> string list \<Rightarrow> path" where
  "normalise acc [] = acc"
| "normalise acc (c # cs) =
     (if c = ''..'' then normalise (butlast acc) cs else normalise (acc @ [c]) cs)"

definition resolve :: "string \<Rightarrow> string \<Rightarrow> path" where
  "resolve wd s =
     (if startswith s ''/'' then normalise [] (path_parts s)
      else normalise [] (path_parts wd @ path_parts s))"

definition lookup :: "filesystem \<Rightarrow> path \<Rightarrow> entry option" where
  "lookup fsys p = (if p = [] then Some Dir else map_of fsys p)"

text \<open>\<open>os.path.exists\<close>: true of files and of directories.\<close>

definition path_exists :: "filesystem \<Rightarrow> path \<Rightarrow> bool" where
  "path_exists fsys p = (lookup fsys p \<noteq> None)"

text \<open>\<open>open(p, "r").read()\<close>.\<close>

definition read_file :: "filesystem \<Rightarrow> path \<Rightarrow> exn + string" where
  "read_file fsys p =
     (case lookup fsys p of
        None \<Rightarrow> Inl FileNotFoundError
      | Some Dir \<Rightarrow> Inl IsADirectoryError
      | Some (File c) \<Rightarrow> Inr c)"

text \<open>Reading a file opened in text mode, \<open>open(p, "r", encoding=...)\<close>: the bytes are
  decoded (\<open>decodes\<close> says whether the encoding accepts them; if not,
  \<open>UnicodeDecodeError\<close> is raised) and, by universal newlines, every \<open>\r\n\<close> and
  every lone \<open>\r\<close> is read as \<open>\n\<close>.\<close>

definition read_text :: "(string \<Rightarrow> bool) \<Rightarrow> filesystem \<Rightarrow> path \<Rightarrow> exn + string" where
  "read_text decodes fsys p =
     (case read_file fsys p of
        Inl x \<Rightarrow> Inl x
      | Inr c \<Rightarrow> if decodes c then Inr (universal_newlines c) else Inl UnicodeDecodeError)"

text \<open>\<open>open(p, "w").write(c)\<close>: the file is created or truncated; its directory must
  exist.\<close>

definition write_file :: "filesystem \<Rightarrow> path \<Rightarrow> string \<Rightarrow> exn + filesystem" where
  "write_file fsys p c =
     (case lookup fsys p of
        Some Dir \<Rightarrow> Inl IsADirectoryError
      | _ \<Rightarrow>
         (case lookup fsys (butlast p) of
            None \<Rightarrow> Inl FileNotFoundError
          | Some (File _) \<Rightarrow> Inl NotADirectoryError
          | Some Dir \<Rightarrow> Inr (AList.update p (File c) fsys)))"

text \<open>\<open>Path.mkdir(parents=True, exist_ok=True)\<close> and \<open>os.makedirs(p, exist_ok=True)\<close>:
  every missing directory on the way is created; a file in the way raises.\<close>

fun mkdir_parents :: "filesystem \<Rightarrow> path \<Rightarrow> string list \<Rightarrow> exn + filesystem" where
  "mkdir_parents fsys pre [] = Inr fsys"
| "mkdir_parents fsys pre (c # cs) =
     (case lookup fsys (pre @ [c]) of
        Some Dir \<Rightarrow> mkdir_parents fsys (pre @ [c]) cs
      | Some (File _) \<Rightarrow> Inl (if cs = [] then FileExistsError else NotADirectoryError)
      | None \<Rightarrow> mkdir_parents (AList.update (pre @ [c]) Dir fsys) (pre @ [c]) cs)"

text \<open>\<open>Path.touch(exist_ok=True)\<close>: an existing entry keeps its content.\<close>

definition touch :: "filesystem \<Rightarrow> path \<Rightarrow> exn + filesystem" where
  "touch fsys p =
     (case lookup fsys p of
        Some _ \<Rightarrow> Inr fsys
      | None \<Rightarrow>
         (case lookup fsys (butlast p) of
            None \<Rightarrow> Inl FileNotFoundError
          | Some (File _) \<Rightarrow> Inl NotADirectoryError
          | Some Dir \<Rightarrow> Inr (AList.update p (File []) fsys)))"

text \<open>\<open>os.listdir(d)\<close>: the names of the entries of directory \<open>d\<close>.\<close>

definition listdir :: "filesystem \<Rightarrow> path \<Rightarrow> exn + string list" where
  "listdir fsys d =
     (case lookup fsys d of
        None \<Rightarrow> Inl FileNotFoundError
      | Some (File _) \<Rightarrow> Inl NotADirectoryError
      | Some Dir \<Rightarrow> Inr (remdups (map last (filter (\<lambda>p. p \<noteq> [] \<and> butlast p = d) (map fst fsys)))))"

text \<open>The mutable world: the file system, what has been written to standard output
  (one element per \<open>print\<close> or prompt), the lines still waiting on standard input, the
  \<open>PATH\<close> variable of \<open>os.environ\<close> and the subprocess commands run so far.\<close>

datatype cmd = Argv "string list" | Shell string

record world =
  fs :: filesystem
  out :: "string list"
  stdin :: "string list"
  environ_PATH :: "string option"
  cmds :: "cmd list"

text \<open>What running a subprocess does: \<open>subprocess.run\<close> raises (the program cannot be
  started, its output cannot be decoded), or it completes with a return code, its
  standard output and the file system it leaves.\<close>

datatype proc = Spawn_error exn | Completed int string filesystem

text \<open>What the script reads and never changes. \<open>base_prefix\<close> and \<open>site_packages\<close> are
  \<open>None\<close> when \<open>sys\<close> has no attribute \<open>base_prefix\<close> and \<open>site\<close> has no
  \<open>getsitepackages\<close>. \<open>locale_decodes\<close> says which bytes the locale's preferred
  encoding decodes (the encoding of \<open>open\<close> without \<open>encoding=\<close>). \<open>run\<close> is the outcome
  of a subprocess in a given world, \<open>which\<close> is \<open>shutil.which\<close>, \<open>exn_text\<close> is \<open>str(e)\<close>
  of a \<open>CalledProcessError\<close>.\<close>

record env =
  sysname :: string
  machine :: string
  cwd :: string
  script_file :: string
  python_version :: string
  executable :: string
  prefix :: string
  base_prefix :: "string option"
  site_packages :: "string list option"
  home :: string
  locale_decodes :: "string \<Rightarrow> bool"
  run :: "cmd \<Rightarrow> world \<Rightarrow> proc"
  which :: "string \<Rightarrow> world \<Rightarrow> bool"
  exn_text :: "exn \<Rightarrow> string"

type_synonym 'a result = "(abort \<times> world) + ('a \<times> world)"

definition and_then :: "(world \<Rightarrow> 'a result) \<Rightarrow> ('a \<Rightarrow> world \<Rightarrow> 'b result) \<Rightarrow> world \<Rightarrow> 'b result" where
  "and_then m f w = (case m w of Inl a \<Rightarrow> Inl a | Inr (x, w') \<Rightarrow> f x w')"

definition print :: "string \<Rightarrow> world \<Rightarrow> world" where
  "print s w = w\<lparr>out := out w @ [s @ [LF]]\<rparr>"

text \<open>\<open>input(prompt)\<close>: the prompt is written, one line is read; at end of input
  \<open>EOFError\<close> is raised.\<close>

definition input :: "string \<Rightarrow> world \<Rightarrow> string result" where
  "input prompt w =
     (let w' = w\<lparr>out := out w @ [prompt]\<rparr>
      in case stdin w' of
           [] \<Rightarrow> Inl (Uncaught EOFError, w')
         | l # ls \<Rightarrow> Inr (l, w'\<lparr>stdin := ls\<rparr>))"

text \<open>\<open>subprocess.run(c)\<close>; with \<open>check=True\<close> a non-zero return code raises
  \<open>CalledProcessError\<close>.\<close>

definition cmd_args :: "cmd \<Rightarrow> string list" where
  "cmd_args c = (case c of Argv a \<Rightarrow> a | Shell s \<Rightarrow> [s])"

definition subprocess_run :: "env \<Rightarrow> cmd \<Rightarrow> bool \<Rightarrow> world \<Rightarrow> (exn \<times> world) + ((int \<times> string) \<times> world)" where
  "subprocess_run e c check w =
     (let w' = w\<lparr>cmds := cmds w @ [c]\<rparr>
      in case run e c w of
           Spawn_error x \<Rightarrow> Inl (x, w')
         | Completed rc so fsys \<Rightarrow>
             if check \<and> rc \<noteq> 0 then Inl (CalledProcessError (cmd_args c) rc, w'\<lparr>fs := fsys\<rparr>)
             else Inr ((rc, so), w'\<lparr>fs := fsys\<rparr>))"

section \<open>The script: \<open>setup.py\<close>\<close>

definition VENV :: string where
  "VENV = ''.venv''"

definition RED :: string where
  "RED = CHR 0x1B # ''[91m''"

definition GREEN :: string where
  "GREEN = CHR 0x1B # ''[92m''"

definition RESET :: string where
  "RESET = CHR 0x1B # ''[0m''"

text \<open>The pictographs the script prints, as their UTF-8 bytes.\<close>

definition check_mark :: string where
  "check_mark = [CHR 0xE2, CHR 0x9C, CHR 0x85]"

definition cross_mark :: string where
  "cross_mark = [CHR 0xE2, CHR 0x9D, CHR 0x8C]"

definition pointing_hand :: string where
  "pointing_hand = [CHR 0xF0, CHR 0x9F, CHR 0x91, CHR 0x89]"

definition magnifier :: string where
  "magnifier = [CHR 0xF0, CHR 0x9F, CHR 0x94, CHR 0x8E]"

definition brain :: string where
  "brain = [CHR 0xF0, CHR 0x9F, CHR 0xA7, CHR 0xA0]"

definition pager :: string where
  "pager = [CHR 0xF0, CHR 0x9F, CHR 0x93, CHR 0x9F]"

definition package :: string where
  "package = [CHR 0xF0, CHR 0x9F, CHR 0x93, CHR 0xA6]"

definition party :: string where
  "party = [CHR 0xF0, CHR 0x9F, CHR 0x8E, CHR 0x89]"

definition right_arrow :: string where
  "right_arrow = [CHR 0xE2, CHR 0x9E, CHR 0xA1, CHR 0xEF, CHR 0xB8, CHR 0x8F]"

definition books :: string where
  "books = [CHR 0xF0, CHR 0x9F, CHR 0x93, CHR 0x9A]"

definition down_arrow :: string where
  "down_arrow = [CHR 0xE2, CHR 0xAC, CHR 0x87, CHR 0xEF, CHR 0xB8, CHR 0x8F]"

definition wrench :: string where
  "wrench = [CHR 0xF0, CHR 0x9F, CHR 0x94, CHR 0xA7]"

definition snake :: string where
  "snake = [CHR 0xF0, CHR 0x9F, CHR 0x90, CHR 0x8D]"

definition link :: string where
  "link = [CHR 0xF0, CHR 0x9F, CHR 0x94, CHR 0x97]"

definition open_folder :: string where
  "open_folder = [CHR 0xF0, CHR 0x9F, CHR 0x93, CHR 0x82]"

definition folder :: string where
  "folder = [CHR 0xF0, CHR 0x9F, CHR 0x93, CHR 0x81]"

definition print_success :: "string \<Rightarrow> world \<Rightarrow> world" where
  "print_success msg = print (GREEN @ check_mark @ '' '' @ msg @ RESET)"

definition print_error :: "string \<Rightarrow> world \<Rightarrow> world" where
  "print_error msg = print (RED @ cross_mark @ '' '' @ msg @ RESET)"

definition print_info :: "string \<Rightarrow> world \<Rightarrow> world" where
  "print_info msg = print (pointing_hand @ '' '' @ msg)"

definition print_header :: "string \<Rightarrow> world \<Rightarrow> world" where
  "print_header msg = print ([LF] @ magnifier @ '' '' @ msg @ [LF] @ replicate 30 (CHR ''=''))"

text \<open>The fields of a \<open>ProjectSetup\<close> object, as \<open>__init__\<close> sets them.\<close>

record state =
  use_poetry :: bool
  package_name :: string

definition init :: state where
  "init = \<lparr>use_poetry = False, package_name = []\<rparr>"

definition detect_project_tool :: "env \<Rightarrow> world \<Rightarrow> string option" where
  "detect_project_tool e w =
     (if \<not> path_exists (fs w) (resolve (cwd e) ''pyproject.toml'') then None
      else (case read_text valid_utf8 (fs w) (resolve (cwd e) ''pyproject.toml'') of
              Inl x \<Rightarrow> None
            | Inr contents \<Rightarrow>
                if contains ''[tool.poetry]'' contents then Some ''poetry''
                else if contains ''[tool.hatch]'' contents then Some ''hatch''
                else if contains ''[tool.flit]'' contents then Some ''flit''
                else None))"

text \<open>The second half of \<open>_detect_platform\<close>, from the line that prints the operating
  system on.\<close>

definition choose_tool :: "env \<Rightarrow> state \<Rightarrow> string \<Rightarrow> world \<Rightarrow> (string \<times> state) result" where
  "choose_tool e st os_type w0 =
     (let w1 = print (pager @ '' OS: '' @ os_type @ '' | Architecture: '' @ machine e) w0;
          project_tool = detect_project_tool e w1
      in if project_tool = Some ''poetry'' then
           Inr ((os_type, st\<lparr>use_poetry := True\<rparr>),
                print_info ''Detected Poetry project from pyproject.toml.'' w1)
         else if project_tool = Some ''hatch'' then
           Inr ((os_type, st\<lparr>use_poetry := False\<rparr>),
                print_info ''Detected Hatch project from pyproject.toml.'' w1)
         else if project_tool = Some ''flit'' then
           Inr ((os_type, st\<lparr>use_poetry := False\<rparr>),
                print_info ''Detected Flit project from pyproject.toml.'' w1)
         else
           (case input (package @ '' Do you want to use pip or poetry? (default: pip): '') w1 of
              Inl a \<Rightarrow> Inl a
            | Inr (answer, w2) \<Rightarrow>
                (let pip_or_poetry = (if answer = [] then ''pip'' else answer)
                 in Inr ((os_type, st\<lparr>use_poetry := (lower pip_or_poetry = ''poetry'')\<rparr>), w2))))"

definition detect_platform :: "env \<Rightarrow> state \<Rightarrow> world \<Rightarrow> (string \<times> state) result" where
  "detect_platform e st w0 =
     (let w1 = print (brain @ '' Detecting OS and architecture...'') w0;
          os_type = ''unknown''
      in if sysname e = ''Darwin'' then choose_tool e st ''mac'' w1
         else if sysname e = ''Linux'' then
           choose_tool e st
             (if path_exists (fs w1) (resolve (cwd e) ''/etc/debian_version'')
              then ''debian'' else ''linux'') w1
         else Inl (SysExit 1, print_error (''Unsupported OS: '' @ sysname e) w1))"

text \<open>The loop of \<open>_convert_requirements_to_poetry\<close> over the lines of the file.\<close>

fun collect_deps :: "string list \<Rightarrow> string list \<Rightarrow> string list" where
  "collect_deps deps [] = deps"
| "collect_deps deps (line # rest) =
     (let line' = strip line
      in if line' \<noteq> [] \<and> \<not> startswith line' ''#''
         then collect_deps (deps @ [line']) rest
         else collect_deps deps rest)"

definition convert_requirements_to_poetry :: "env \<Rightarrow> world \<Rightarrow> string result" where
  "convert_requirements_to_poetry e w =
     (if path_exists (fs w) (resolve (cwd e) ''requirements.txt'') then
        (case read_text (locale_decodes e) (fs w) (resolve (cwd e) ''requirements.txt'') of
           Inl x \<Rightarrow> Inl (Uncaught x, w)
         | Inr text \<Rightarrow> Inr (str_join [LF] (collect_deps [] (keepends text)), w))
      else Inr (str_join [LF] (collect_deps [] []), w))"

definition indent_dependencies :: "string \<Rightarrow> string" where
  "indent_dependencies deps =
     str_join [LF] (map (\<lambda>dep. replicate 4 (CHR '' '') @ dep)
                        (filter (\<lambda>dep. strip dep \<noteq> []) (splitlines deps)))"

definition get_default_package_name :: "env \<Rightarrow> string" where
  "get_default_package_name e =
     str_replace ''-'' ''_'' (str_replace '' '' ''_'' (lower (path_name (cwd e))))"

definition get_git_config :: "env \<Rightarrow> string \<Rightarrow> world \<Rightarrow> (string option) result" where
  "get_git_config e key w =
     (case subprocess_run e (Argv [''git'', ''config'', ''--get'', key]) False w of
        Inl (x, w') \<Rightarrow> Inr (None, w')
      | Inr ((returncode, stdout), w') \<Rightarrow>
          if returncode = 0 then Inr (Some (strip stdout), w') else Inr (None, w'))"

definition strip_content :: "string \<Rightarrow> string" where
  "strip_content content =
     str_join [LF] (map (\<lambda>line. str_replace [TAB] [] (strip line))
                        (filter (\<lambda>line. strip line \<noteq> []) (split_on LF content)))"

definition write_if_missing :: "env \<Rightarrow> string \<Rightarrow> string \<Rightarrow> world \<Rightarrow> unit result" where
  "write_if_missing e filename content w =
     (if \<not> path_exists (fs w) (resolve (cwd e) filename) then
        (let w1 = print_info (filename @ '' not found. Let's create one.'') w
         in case write_file (fs w1) (resolve (cwd e) filename) content of
              Inl x \<Rightarrow> Inl (Uncaught x, w1)
            | Inr fsys \<Rightarrow> Inr ((), print_success (filename @ '' created.'') (w1\<lparr>fs := fsys\<rparr>)))
      else Inr ((), print_success (filename @ '' already exists.'') w))"

definition dev_requirements_content :: string where
  "dev_requirements_content =
     [LF] @ replicate 12 (CHR '' '') @ ''pytest'' @
     [LF] @ replicate 12 (CHR '' '') @ ''mypy'' @
     [LF] @ replicate 12 (CHR '' '') @ ''types-python-dateutil'' @
     [LF] @ replicate 12 (CHR '' '') @ ''build'' @
     [LF] @ replicate 12 (CHR '' '') @ ''toml'' @
     [LF] @ replicate 12 (CHR '' '') @ ''twine'' @
     [LF] @ replicate 12 (CHR '' '') @ ''wheel'' @
     [LF] @ replicate 12 (CHR '' '') @ ''pkginfo'' @
     [LF] @ replicate 12 (CHR '' '') @ ''hatchling'' @
     [LF] @ replicate 12 (CHR '' '') @ ''moto'' @
     [LF] @ replicate 8 (CHR '' '')"

definition setup_requirements :: "env \<Rightarrow> world \<Rightarrow> unit result" where
  "setup_requirements e =
     and_then (write_if_missing e ''requirements.txt'' ''# project requirements'')
       (\<lambda>_. write_if_missing e ''requirements.dev.txt'' (strip_content dev_requirements_content))"

text \<open>Raised exceptions travel as \<open>Uncaught\<close> aborts until a handler takes them.
  \<open>run_cmd\<close> is \<open>subprocess.run\<close> inside such code; \<open>except_CalledProcessError\<close> is
  \<open>try: body except subprocess.CalledProcessError as x: handler\<close>, which lets every
  other exception and \<open>sys.exit\<close> pass.\<close>

definition run_cmd :: "env \<Rightarrow> cmd \<Rightarrow> bool \<Rightarrow> world \<Rightarrow> (int \<times> string) result" where
  "run_cmd e c check w =
     (case subprocess_run e c check w of
        Inl (x, w') \<Rightarrow> Inl (Uncaught x, w')
      | Inr r \<Rightarrow> Inr r)"

definition except_CalledProcessError :: "(world \<Rightarrow> 'a result) \<Rightarrow> (exn \<Rightarrow> world \<Rightarrow> 'a result) \<Rightarrow> world \<Rightarrow> 'a result" where
  "except_CalledProcessError body handler w =
     (case body w of
        Inl (Uncaught (CalledProcessError a rc), w') \<Rightarrow> handler (CalledProcessError a rc) w'
      | r \<Rightarrow> r)"

definition raising :: "exn + 'a \<Rightarrow> world \<Rightarrow> 'a result" where
  "raising r w = (case r of Inl x \<Rightarrow> Inl (Uncaught x, w) | Inr v \<Rightarrow> Inr (v, w))"

text \<open>The two f-string templates of \<open>_create_pyproject_toml\<close>.\<close>

definition ind :: "nat \<Rightarrow> string" where
  "ind n = replicate n (CHR '' '')"

definition poetry_content :: "string \<Rightarrow> string \<Rightarrow> string \<Rightarrow> string \<Rightarrow> string \<Rightarrow> string \<Rightarrow> string" where
  \<open>poetry_content name version description author_name author_email deps =
     [LF] @
     ind 16 @ ''[tool.poetry]'' @ [LF] @
     ind 16 @ ''name = "'' @ name @ ''"'' @ [LF] @
     ind 16 @ ''version = "'' @ version @ ''"'' @ [LF] @
     ind 16 @ ''description = "'' @ description @ ''"'' @ [LF] @
     ind 16 @ ''authors = ["'' @ author_name @ '' <'' @ author_email @ ''>"]'' @ [LF] @
     [LF] @
     ind 16 @ ''[tool.poetry.dependencies]'' @ [LF] @
     ind 16 @ ''python = "^3.8"'' @ [LF] @
     deps @ [LF] @
     [LF] @
     ind 16 @ ''[tool.poetry.dev-dependencies]'' @ [LF] @
     ind 16 @ ''pytest = "^7.0"'' @ [LF] @
     [LF] @
     ind 16 @ ''[build-system]'' @ [LF] @
     ind 16 @ ''requires = ["poetry-core>=1.0.0"]'' @ [LF] @
     ind 16 @ ''build-backend = "poetry.core.masonry.api"'' @ [LF] @
     ind 12\<close>

definition hatch_content :: "string \<Rightarrow> string \<Rightarrow> string \<Rightarrow> string \<Rightarrow> string \<Rightarrow> string \<Rightarrow> string" where
  \<open>hatch_content name version description author_name author_email build_system =
     [LF] @
     ind 16 @ ''[project]'' @ [LF] @
     ind 16 @ ''name = "'' @ name @ ''"'' @ [LF] @
     ind 16 @ ''version = "'' @ version @ ''"'' @ [LF] @
     ind 16 @ ''description = "'' @ description @ ''"'' @ [LF] @
     ind 16 @ ''authors = [{name="'' @ author_name @ ''", email="'' @ author_email @ ''"}]'' @ [LF] @
     ind 16 @ ''requires-python = ">=3.8"'' @ [LF] @
     [LF] @
     ind 16 @ ''[tool.pytest.ini_options]'' @ [LF] @
     ind 16 @ ''pythonpath = ["src"]'' @ [LF] @
     ind 16 @ ''testpaths = ["tests", "src"]'' @ [LF] @
     ind 16 @ ''markers = ['' @ [LF] @
     ind 20 @ ''"integration: marks tests as integration (deselect with '' @
       [CHR 0x27] @ ''-m '' @ [CHR 0x5C, DQ] @ ''not integration'' @ [CHR 0x5C, DQ] @ [CHR 0x27] @
       '')"'' @ [LF] @
     ind 16 @ '']'' @ [LF] @
     ind 16 @ ''addopts = "-m 'not integration'"'' @ [LF] @
     [LF] @
     ind 16 @ ''[build-system]'' @ [LF] @
     ind 16 @ ''requires = ["'' @ build_system @ ''"]'' @ [LF] @
     ind 16 @ ''build-backend = "'' @ build_system @ ''.build"'' @ [LF] @
     [LF] @
     ind 16 @ ''[tool.hatch.build.targets.wheel]'' @ [LF] @
     ind 16 @ ''packages = ["src/'' @ name @ ''"]'' @ [LF] @
     ind 12\<close>

text \<open>\<open>Path("src/<name>").mkdir(parents=True, exist_ok=True)\<close> and the \<open>touch\<close> of its
  \<open>__init__.py\<close>.\<close>

definition make_package_dir :: "env \<Rightarrow> string \<Rightarrow> world \<Rightarrow> unit result" where
  "make_package_dir e name w =
     (case mkdir_parents (fs w) [] (resolve (cwd e) (''src/'' @ name)) of
        Inl x \<Rightarrow> Inl (Uncaught x, w)
      | Inr fsys \<Rightarrow>
          (case touch fsys (resolve (cwd e) (''src/'' @ name @ ''/__init__.py'')) of
             Inl x \<Rightarrow> Inl (Uncaught x, w\<lparr>fs := fsys\<rparr>)
           | Inr fsys' \<Rightarrow> Inr ((), w\<lparr>fs := fsys'\<rparr>)))"

definition makedirs_tests :: "env \<Rightarrow> world \<Rightarrow> unit result" where
  "makedirs_tests e w =
     (case mkdir_parents (fs w) [] (resolve (cwd e) ''tests'') of
        Inl x \<Rightarrow> Inl (Uncaught x, w)
      | Inr fsys \<Rightarrow> Inr ((), w\<lparr>fs := fsys\<rparr>))"

text \<open>The last three lines of \<open>_create_pyproject_toml\<close>.\<close>

definition write_manifest :: "env \<Rightarrow> state \<Rightarrow> string \<Rightarrow> world \<Rightarrow> state result" where
  "write_manifest e st content w =
     (case write_file (fs w) (resolve (cwd e) ''pyproject.toml'') (strip_content content) of
        Inl x \<Rightarrow> Inl (Uncaught x, w)
      | Inr fsys \<Rightarrow> Inr (st, print_success ''pyproject.toml created.'' (w\<lparr>fs := fsys\<rparr>)))"

text \<open>The second half of \<open>_create_pyproject_toml\<close>, from the creation of the source
  directory on: the package directory, the template of the chosen tool, the manifest.\<close>

definition create_pyproject_toml_files ::
    "env \<Rightarrow> state \<Rightarrow> string \<Rightarrow> string \<Rightarrow> string \<Rightarrow> string \<Rightarrow> world \<Rightarrow> state result" where
  "create_pyproject_toml_files e st package_version package_description author_name author_email =
     and_then (make_package_dir e (package_name st))
       (\<lambda>_.
          if use_poetry st then
            and_then (convert_requirements_to_poetry e)
              (\<lambda>deps_block.
                 write_manifest e st
                   (poetry_content (package_name st) package_version package_description
                      author_name author_email (indent_dependencies deps_block)))
          else
            and_then (input ''Build system (default: hatchling): '')
              (\<lambda>b. let build_system = (if b = [] then ''hatchling'' else b) in
            and_then (makedirs_tests e)
              (\<lambda>_.
                 write_manifest e st
                   (hatch_content (package_name st) package_version package_description
                      author_name author_email build_system))))"

definition create_pyproject_toml :: "env \<Rightarrow> state \<Rightarrow> world \<Rightarrow> state result" where
  "create_pyproject_toml e st w =
     (if path_exists (fs w) (resolve (cwd e) ''pyproject.toml'') then
        Inr (st, print_success ''pyproject.toml already exists.'' w)
      else
        and_then (input (''Package name (default: '' @ get_default_package_name e @ ''): ''))
          (\<lambda>package_name_input.
             let st1 = st\<lparr>package_name :=
                         (if package_name_input \<noteq> []
                          then str_replace ''-'' ''_'' (lower (str_replace '' '' ''-'' package_name_input))
                          else get_default_package_name e)\<rparr>
             in
        and_then (input ''Package version (default: 0.1.0): '')
          (\<lambda>v. let package_version = (if v = [] then ''0.1.0'' else v) in
        and_then (input ''Package description: '')
          (\<lambda>package_description.
        and_then (get_git_config e ''user.name'')
          (\<lambda>git_name. let author_name0 = str_or git_name ''unnamed developer'' in
        and_then (get_git_config e ''user.email'')
          (\<lambda>git_email. let author_email0 = str_or git_email ''developer@example.com'' in
        and_then (input (''Author name (default: '' @ author_name0 @ ''): ''))
          (\<lambda>a. let author_name = (if a = [] then author_name0 else a) in
        and_then (input (''Author email (default: '' @ author_email0 @ ''): ''))
          (\<lambda>m. let author_email = (if m = [] then author_email0 else m) in
        create_pyproject_toml_files e st1 package_version package_description
          author_name author_email)))))))
          (print_info ''pyproject.toml not found. Let's create one.'' w))"

definition setup_poetry :: "env \<Rightarrow> state \<Rightarrow> world \<Rightarrow> state result" where
  "setup_poetry e st =
     and_then (create_pyproject_toml e st)
       (\<lambda>st1 w0.
          except_CalledProcessError
            (and_then
               (\<lambda>w. if \<not> which e ''poetry'' w then
                       and_then
                         (run_cmd e (Shell ''curl -sSL https://install.python-poetry.org | python3 -'') True)
                         (\<lambda>_ w'. case environ_PATH w' of
                                    None \<Rightarrow> Inl (Uncaught KeyError, w')
                                  | Some p \<Rightarrow>
                                      Inr ((), w'\<lparr>environ_PATH := Some (home e @ ''/.local/bin:'' @ p)\<rparr>))
                         (print (down_arrow @ '' Installing Poetry...'') w)
                     else Inr ((), w))
               (\<lambda>_. and_then (run_cmd e (Argv [''poetry'', ''--version'']) False)
                  (\<lambda>(returncode, stdout) w.
                     if returncode \<noteq> 0 then
                       Inl (SysExit 1, print_error ''Poetry installation failed.'' w)
                     else
                       and_then (run_cmd e (Argv [''poetry'', ''install'']) True)
                         (\<lambda>_ w'. Inr (st1, w'))
                         (print (wrench @ '' Creating virtual environment with Poetry...'')
                            (print_success (strip stdout) w)))))
            (\<lambda>x w. Inl (SysExit 1, print_error (''Poetry setup failed: '' @ exn_text e x) w))
            (print (books @ ''  Using Poetry for environment setup...'') w0))"

text \<open>\<open>Path(__file__).parent\<close>, the directory \<open>get_list_of_requirements_files\<close> lists.\<close>

definition script_dir :: "env \<Rightarrow> path" where
  "script_dir e =
     (if startswith (script_file e) ''/'' then normalise [] (butlast (path_parts (script_file e)))
      else normalise [] (path_parts (cwd e) @ butlast (path_parts (script_file e))))"

definition get_list_of_requirements_files :: "env \<Rightarrow> world \<Rightarrow> (string list) result" where
  "get_list_of_requirements_files e w =
     raising
       (case listdir (fs w) (script_dir e) of
          Inl x \<Rightarrow> Inl x
        | Inr names \<Rightarrow>
            Inr (filter (\<lambda>f. startswith f ''requirements'' \<and> endswith f ''.txt'') names))
       w"

text \<open>The \<open>for req_file in ...\<close> loop of \<open>_setup_pip\<close>.\<close>

fun install_requirements :: "env \<Rightarrow> string list \<Rightarrow> world \<Rightarrow> unit result" where
  "install_requirements e [] w = Inr ((), w)"
| "install_requirements e (req_file # rest) w =
     (case run_cmd e (Argv [VENV @ ''/bin/pip'', ''install'', ''-r'', req_file, ''--upgrade'']) True
             (print (link @ '' Installing packages from '' @ req_file @ ''...'') w) of
        Inl a \<Rightarrow> Inl a
      | Inr (r, w') \<Rightarrow> install_requirements e rest w')"

definition setup_pip :: "env \<Rightarrow> state \<Rightarrow> world \<Rightarrow> state result" where
  "setup_pip e st =
     and_then (create_pyproject_toml e st)
       (\<lambda>st1 w0.
          except_CalledProcessError
            (and_then (run_cmd e (Argv [''python3'', ''-m'', ''venv'', VENV]) True)
               (\<lambda>_. and_then (run_cmd e (Argv [VENV @ ''/bin/pip'', ''install'', ''--upgrade'', ''pip'']) True)
               (\<lambda>_. and_then (get_list_of_requirements_files e)
               (\<lambda>files. and_then (install_requirements e files)
               (\<lambda>_ w. and_then (run_cmd e (Argv [VENV @ ''/bin/pip'', ''install'', ''-e'', ''.'']) True)
                         (\<lambda>_ w'. Inr (st1, w'))
                         (print (link @ '' Installing local package in editable mode...'') w))))))
            (\<lambda>x w. Inl (SysExit 1, print_error (''pip setup failed: '' @ exn_text e x) w))
            (print (snake @ '' Setting up Python virtual environment at '' @ VENV @ ''...'') w0))"

definition is_virtual_environment :: "env \<Rightarrow> bool" where
  "is_virtual_environment e =
     (prefix e \<noteq> (case base_prefix e of None \<Rightarrow> prefix e | Some b \<Rightarrow> b))"

definition print_env_info :: "env \<Rightarrow> world \<Rightarrow> unit result" where
  "print_env_info e w0 =
     (let w1 = print_header ''Python Environment Info'' w0;
          w2 = print (package @ '' Python Version     : '' @ python_version e) w1;
          w3 = print (snake @ '' Python Executable  : '' @ executable e) w2;
          w4 = print (open_folder @ '' sys.prefix         : '' @ prefix e) w3;
          w5 = print (open_folder @ '' Base Prefix        : '' @
                        (case base_prefix e of None \<Rightarrow> prefix e | Some b \<Rightarrow> b)) w4
      in case (case site_packages e of
                 None \<Rightarrow> Inr ''N/A''
               | Some [] \<Rightarrow> Inl IndexError
               | Some (p # ps) \<Rightarrow> Inr p) of
           Inl x \<Rightarrow> Inl (Uncaught x, w5)
         | Inr sp \<Rightarrow>
             (let w6 = print (brain @ '' site-packages path : '' @ sp) w5;
                  in_venv = is_virtual_environment e;
                  w7 = print (check_mark @ '' In Virtual Env     : '' @
                                (if in_venv then ''Yes'' else ''No'')) w6
              in Inr ((), if in_venv
                          then print (folder @ '' Virtual Env Name   : '' @ path_name (prefix e)) w7
                          else w7)))"

text \<open>\<open>ProjectSetup.setup\<close>.\<close>

definition run_setup :: "env \<Rightarrow> state \<Rightarrow> world \<Rightarrow> state result" where
  "run_setup e st =
     and_then (detect_platform e st)
       (\<lambda>(os_type, st1). and_then (setup_requirements e)
       (\<lambda>_. and_then ((if use_poetry st1 then setup_poetry else setup_pip) e st1)
       (\<lambda>st2. and_then (print_env_info e)
       (\<lambda>_ w. let w1 = print ([LF] @ party @ '' Setup complete!'') w
              in Inr (st2,
                      if \<not> use_poetry st2
                      then print (right_arrow @ ''  Run 'source '' @ VENV @
                                  ''/bin/activate' to activate the virtual environment.'') w1
                      else w1)))))"

definition main :: "env \<Rightarrow> world \<Rightarrow> state result" where
  "main e = run_setup e init"

section \<open>Example inputs\<close>

text \<open>A Linux machine with the project in \<open>/home/dev/My Project\<close>, the script beside it,
  a UTF-8 locale, no \<open>git\<close> and no other program to run, and an interpreter outside any
  virtual environment.\<close>

definition ex_env :: env where
  "ex_env = \<lparr>sysname = ''Linux'', machine = ''x86_64'', cwd = ''/home/dev/My Project'',
     script_file = ''/home/dev/My Project/setup.py'', python_version = ''3.11.4'',
     executable = ''/usr/bin/python3'', prefix = ''/usr'', base_prefix = Some ''/usr'',
     site_packages = Some [''/usr/lib/python3/dist-packages''], home = ''/home/dev'',
     locale_decodes = valid_utf8,
     run = (\<lambda>c w. Spawn_error FileNotFoundError), which = (\<lambda>n w. False),
     exn_text = (\<lambda>x. ''error'')\<rparr>"

definition ex_world :: world where
  "ex_world = \<lparr>fs = [([''home''], Dir), ([''home'', ''dev''], Dir),
                       ([''home'', ''dev'', ''My Project''], Dir)],
                out = [], stdin = [], environ_PATH = Some ''/usr/bin'', cmds = []\<rparr>"

text \<open>The same project with a manifest that names all three tools, \<open>[tool.poetry]\<close>
  last.\<close>

definition ex_manifest :: string where
  "ex_manifest = ''[tool.flit]'' @ [LF] @ ''[tool.hatch]'' @ [LF] @ ''[tool.poetry]'' @ [LF]"

definition ex_world_manifest :: world where
  "ex_world_manifest =
     ex_world\<lparr>fs := fs ex_world @ [([''home'', ''dev'', ''My Project'', ''pyproject.toml''], File ex_manifest)]\<rparr>"

text \<open>The same manifest behind a byte that is not UTF-8.\<close>

definition ex_world_undecodable :: world where
  "ex_world_undecodable =
     ex_world\<lparr>fs := fs ex_world @
        [([''home'', ''dev'', ''My Project'', ''pyproject.toml''], File (CHR 0xFF # ex_manifest))]\<rparr>"

text \<open>The same project with the base requirements file of the specification's example,
  and with one whose only line has a form feed in the middle.\<close>

definition ex_requirements :: string where
  "ex_requirements = [LF] @ ''requests>=2'' @ [LF] @ ''# comment'' @ [LF] @ [LF] @ ''flask'' @ [LF]"

definition ex_world_requirements :: world where
  "ex_world_requirements =
     ex_world\<lparr>fs := fs ex_world @ [([''home'', ''dev'', ''My Project'', ''requirements.txt''], File ex_requirements)]\<rparr>"

definition ex_world_formfeed :: world where
  "ex_world_formfeed =
     ex_world\<lparr>fs := fs ex_world @
        [([''home'', ''dev'', ''My Project'', ''requirements.txt''], File (''a'' @ [CHR 0x0C] @ ''b'' @ [LF]))]\<rparr>"

text \<open>A user who chose poetry and answers every prompt of the manifest generator, and
  the manifest this gives when the lines \<open>deps\<close> stand in the dependency table.\<close>

definition ex_poetry_answers :: "string list" where
  "ex_poetry_answers = [''demo'', [], ''A demo'', ''Ann'', ''ann@example.com'']"

definition ex_poetry_manifest :: "string list \<Rightarrow> string" where
  \<open>ex_poetry_manifest deps =
     str_join [LF]
       ([''[tool.poetry]'',
         ''name = "demo"'',
         ''version = "0.1.0"'',
         ''description = "A demo"'',
         ''authors = ["Ann <ann@example.com>"]'',
         ''[tool.poetry.dependencies]'',
         ''python = "^3.8"''] @
        deps @
        [''[tool.poetry.dev-dependencies]'',
         ''pytest = "^7.0"'',
         ''[build-system]'',
         ''requires = ["poetry-core>=1.0.0"]'',
         ''build-backend = "poetry.core.masonry.api"''])\<close>




definition ex_env_git_name :: env where
  "ex_env_git_name =
     ex_env\<lparr>run := (\<lambda>c w. if c = Argv [''git'', ''config'', ''--get'', ''user.name'']
                            then Completed 0 (''Ada Lovelace'' @ [LF]) (fs w)
                            else Spawn_error FileNotFoundError)\<rparr>"


definition ex_world_input :: world where
  "ex_world_input = ex_world\<lparr>stdin := [''My Pkg-X'', [], ''demo'', [], [], []]\<rparr>"

section \<open>Facts about the string functions\<close>

lemma startswith_iff: "startswith s p \<longleftrightarrow> (\<exists>ss. s = p @ ss)"
  by (induction s p rule: startswith.induct) auto


lemma contains_iff: "contains sub s \<longleftrightarrow> (\<exists>ps ss. s = ps @ sub @ ss)"
proof (induction s)
  case Nil
  show ?case by auto
next
  case (Cons c cs)
  show ?case
  proof
    assume "contains sub (c # cs)"
    then consider "startswith (c # cs) sub" | "contains sub cs" by auto
    then show "\<exists>ps ss. c # cs = ps @ sub @ ss"
    proof cases
      case 1
      then obtain ss where "c # cs = sub @ ss" by (auto simp: startswith_iff)
      then have "c # cs = [] @ sub @ ss" by simp
      then show ?thesis by blast
    next
      case 2
      then obtain ps ss where "cs = ps @ sub @ ss" using Cons.IH by auto
      then have "c # cs = (c # ps) @ sub @ ss" by simp
      then show ?thesis by blast
    qed
  next
    assume "\<exists>ps ss. c # cs = ps @ sub @ ss"
    then obtain ps ss where eq: "c # cs = ps @ sub @ ss" by blast
    show "contains sub (c # cs)"
    proof (cases ps)
      case Nil
      with eq have "startswith (c # cs) sub" by (auto simp: startswith_iff)
      then show ?thesis by simp
    next
      case (Cons p ps')
      with eq have "cs = ps' @ sub @ ss" by simp
      then have "contains sub cs" using Cons.IH by blast
      then show ?thesis by simp
    qed
  qed
qed

lemma startswith_head:
  "m \<noteq> [] \<Longrightarrow> hd m \<noteq> x \<Longrightarrow> \<not> startswith (x # t) m"
  by (cases m) auto

lemma startswith_universal_newlines:
  "CR \<notin> set m \<Longrightarrow> LF \<notin> set m \<Longrightarrow>
   startswith (universal_newlines s) m = startswith s m"
proof (induction s arbitrary: m rule: universal_newlines.induct)
  case 1
  then show ?case by simp
next
  case (2 c)
  then show ?case by (cases m) auto
next
  case (3 c d ds)
  show ?case
  proof (cases m)
    case Nil
    then show ?thesis by simp
  next
    case (Cons x xs)
    with 3 show ?thesis by auto
  qed
qed

lemma contains_universal_newlines:
  "m \<noteq> [] \<Longrightarrow> CR \<notin> set m \<Longrightarrow> LF \<notin> set m \<Longrightarrow>
   contains m (universal_newlines s) = contains m s"
proof (induction s rule: universal_newlines.induct)
  case 1
  then show ?case by simp
next
  case (2 c)
  then show ?case by (cases m) auto
next
  case (3 c d ds)
  from 3(4) have hd: "hd m \<noteq> CR" "hd m \<noteq> LF"
    using 3(5,6) by (cases m; auto)+
  have sw: "startswith (universal_newlines (c # d # ds)) m = startswith (c # d # ds) m"
    using 3(5,6) by (rule startswith_universal_newlines)
  show ?case
  proof (cases "c = CR")
    case True
    show ?thesis
    proof (cases "d = LF")
      case dl: True
      have "contains m (universal_newlines ds) = contains m ds"
        using 3(1) True dl 3(4,5,6) by simp
      then show ?thesis
        using True dl hd 3(4) by (simp add: startswith_head)
    next
      case dl: False
      have "contains m (universal_newlines (d # ds)) = contains m (d # ds)"
        using 3(2) dl True 3(4,5,6) by simp
      then show ?thesis
        using True dl hd 3(4) by (simp add: startswith_head)
    qed
  next
    case False
    have "contains m (universal_newlines (d # ds)) = contains m (d # ds)"
      using 3(3) False 3(4,5,6) by simp
    moreover have "universal_newlines (c # d # ds) = c # universal_newlines (d # ds)"
      using False by simp
    ultimately show ?thesis
      using sw by (simp del: universal_newlines.simps startswith.simps)
  qed
qed

lemma replace_nonempty_single:
  "replace_nonempty [a] [b] s = map (\<lambda>c. if c = a then b else c) s"
  by (induction s) auto

lemma str_replace_single:
  "str_replace [a] [b] s = map (\<lambda>c. if c = a then b else c) s"
  by (simp add: str_replace_def replace_nonempty_single)

lemma lower_ex: "lower ''My Project'' = ''my project''"
  by (simp add: lower_def lower_char_def ascii_uppercase_def ascii_lowercase_def)

lemma lower_char_cases:
  "lower_char c = d \<Longrightarrow> d \<notin> set ascii_uppercase \<and> (d = CHR '' '' \<longrightarrow> c = CHR '' '') \<and> (d = CHR ''-'' \<longrightarrow> c = CHR ''-'')"
  by (auto simp: lower_char_def ascii_uppercase_def ascii_lowercase_def split: if_splits)

lemma lower_char_space: "lower_char c = CHR '' '' \<longleftrightarrow> c = CHR '' ''"
  using lower_char_cases [of c "lower_char c"]
  by (auto simp: lower_char_def ascii_uppercase_def ascii_lowercase_def)

lemma lower_char_hyphen: "lower_char c = CHR ''-'' \<longleftrightarrow> c = CHR ''-''"
  using lower_char_cases [of c "lower_char c"]
  by (auto simp: lower_char_def ascii_uppercase_def ascii_lowercase_def)

lemma normalised_name_map:
  "str_replace ''-'' ''_'' (lower (str_replace '' '' ''-'' s)) =
     map (\<lambda>c. if c = CHR '' '' \<or> c = CHR ''-'' then CHR ''_'' else lower_char c) s"
  by (induction s) (auto simp: str_replace_single lower_def lower_char_hyphen lower_char_space)

lemma normalised_chars:
  assumes "d \<in> set (map (\<lambda>c. if c = CHR '' '' \<or> c = CHR ''-'' then CHR ''_'' else lower_char c) s)"
  shows "d \<noteq> CHR '' '' \<and> d \<noteq> CHR ''-'' \<and> \<not> is_upper d"
proof -
  from assms have "\<exists>c. d = (if c = CHR '' '' \<or> c = CHR ''-'' then CHR ''_'' else lower_char c)"
    unfolding set_map by blast
  then obtain c where d: "d = (if c = CHR '' '' \<or> c = CHR ''-'' then CHR ''_'' else lower_char c)" ..
  show ?thesis
  proof (cases "c = CHR '' '' \<or> c = CHR ''-''")
    case True
    with d show ?thesis by (simp add: is_upper_def ascii_uppercase_def)
  next
    case False
    with d have "lower_char c = d" by simp
    from lower_char_cases [OF this] False show ?thesis by (auto simp: is_upper_def)
  qed
qed

lemma collect_deps_filter:
  "collect_deps deps ls =
     deps @ filter (\<lambda>l. l \<noteq> [] \<and> \<not> startswith l ''#'') (map strip ls)"
  by (induction ls arbitrary: deps) (auto simp: Let_def)

lemma strip_Nil: "strip [] = []"
  by (simp add: strip_def)

lemma strip_prefix_suffix:
  "dropWhile is_space s = strip s @ rev (takeWhile is_space (rev (dropWhile is_space s)))"
proof -
  let ?u = "dropWhile is_space s"
  have "rev (takeWhile is_space (rev ?u) @ dropWhile is_space (rev ?u)) = ?u"
    by (simp only: takeWhile_dropWhile_id rev_rev_ident)
  then have "rev (dropWhile is_space (rev ?u)) @ rev (takeWhile is_space (rev ?u)) = ?u"
    by (simp only: rev_append)
  then show ?thesis by (simp only: strip_def)
qed

lemma strip_idem: "strip (strip s) = strip s"
proof (cases "strip s = []")
  case True
  with strip_Nil show ?thesis by simp
next
  case False
  let ?u = "dropWhile is_space s"
  have u: "?u \<noteq> []"
  proof
    assume e: "?u = []"
    have "strip s = rev (dropWhile is_space (rev ?u))" by (simp only: strip_def)
    also have "\<dots> = []" unfolding e by simp
    finally have "strip s = []" .
    with False show False by simp
  qed
  then have "\<not> is_space (hd ?u)" by (rule hd_dropWhile)
  moreover have "hd ?u = hd (strip s)"
    using strip_prefix_suffix [of s] False by (metis hd_append2)
  ultimately have 1: "dropWhile is_space (strip s) = strip s"
    using False by (cases "strip s") auto
  have 2: "dropWhile is_space (rev (strip s)) = rev (strip s)"
    by (simp add: strip_def)
  have "strip (strip s) = rev (dropWhile is_space (rev (dropWhile is_space (strip s))))"
    by (simp only: strip_def)
  also have "\<dots> = rev (dropWhile is_space (rev (strip s)))"
    by (simp only: 1)
  also have "\<dots> = strip s"
    by (simp only: 2 rev_rev_ident)
  finally show ?thesis .
qed

lemma splitlines_plain:
  "s \<noteq> [] \<Longrightarrow> \<forall>c\<in>set s. \<not> is_boundary c \<Longrightarrow> splitlines s = [s]"
proof (induction s rule: splitlines.induct)
  case 1
  then show ?case by simp
next
  case (2 c)
  then show ?case by simp
next
  case (3 c d ds)
  then have "c \<noteq> CR" by (auto simp: is_boundary_def line_boundaries_def CR_def)
  with 3 show ?case by simp
qed

lemma LF_boundary: "is_boundary LF" and LF_not_CR: "LF \<noteq> CR"
  by (simp_all add: is_boundary_def line_boundaries_def LF_def CR_def)

lemma splitlines_line:
  "\<forall>c\<in>set s. \<not> is_boundary c \<Longrightarrow> rest \<noteq> [] \<Longrightarrow> splitlines (s @ LF # rest) = s # splitlines rest"
proof (induction s)
  case Nil
  then obtain r rs where "rest = r # rs" by (cases rest) auto
  then show ?case by (simp add: LF_boundary LF_not_CR)
next
  case (Cons c s)
  then have c: "\<not> is_boundary c" "c \<noteq> CR"
    by (auto simp: is_boundary_def line_boundaries_def CR_def)
  obtain d ds where eq: "s @ LF # rest = d # ds" by (cases "s @ LF # rest") auto
  have "splitlines (d # ds) = s # splitlines rest"
    using Cons eq by simp
  then have "splitlines (c # d # ds) = (c # s) # splitlines rest"
    using c by simp
  then show ?case using eq by simp
qed

lemma splitlines_join:
  "\<forall>d\<in>set deps. d \<noteq> [] \<and> (\<forall>c\<in>set d. \<not> is_boundary c) \<Longrightarrow>
   splitlines (str_join [LF] deps) = deps"
proof (induction deps)
  case Nil
  then show ?case by simp
next
  case (Cons x xs)
  show ?case
  proof (cases xs)
    case Nil
    with Cons.prems show ?thesis by (simp add: splitlines_plain)
  next
    case (Cons y ys)
    have ne: "str_join [LF] (y # ys) \<noteq> []"
      using Cons.prems Cons by (cases ys) auto
    have "splitlines (x @ LF # str_join [LF] (y # ys)) = x # splitlines (str_join [LF] (y # ys))"
      using Cons.prems ne by (intro splitlines_line) auto
    moreover have "splitlines (str_join [LF] (y # ys)) = y # ys"
      using Cons.IH Cons.prems Cons by simp
    ultimately show ?thesis using Cons by simp
  qed
qed

lemma replicate_4: "replicate 4 c = [c, c, c, c]"
  by (simp add: eval_nat_numeral)

section \<open>Facts about the world\<close>

lemmas ex_defs = ex_env_def ex_world_def ex_world_manifest_def ex_manifest_def
  ex_world_requirements_def ex_requirements_def

lemmas path_defs = resolve_def path_parts_def path_exists_def lookup_def

lemmas utf8_defs = utf8_sequence_def byte_def continuation_def LF_def CR_def

lemmas run_defs = create_pyproject_toml_def create_pyproject_toml_files_def and_then_def input_def
  get_git_config_def subprocess_run_def make_package_dir_def touch_def makedirs_tests_def
  convert_requirements_to_poetry_def read_text_def read_file_def indent_dependencies_def
  write_manifest_def write_file_def init_def print_info_def print_success_def print_def
  poetry_content_def hatch_content_def strip_content_def ind_def TAB_def
  str_replace_def lower_def lower_char_def ascii_uppercase_def ascii_lowercase_def
  update_conv' eval_nat_numeral

lemmas str_defs = strip_def is_space_def whitespace_def file_lines_def LF_def CR_def
  is_boundary_def line_boundaries_def

lemma fs_print [simp]: "fs (print s w) = fs w"
  by (simp add: print_def)

lemma fs_print_success [simp]: "fs (print_success s w) = fs w"
  by (simp add: print_success_def)

lemma fs_print_info [simp]: "fs (print_info s w) = fs w"
  by (simp add: print_info_def)

lemma fs_print_error [simp]: "fs (print_error s w) = fs w"
  by (simp add: print_error_def)

lemma cmds_print [simp]: "cmds (print s w) = cmds w"
  by (simp add: print_def)

lemma stdin_print_info [simp]: "stdin (print_info s w) = stdin w"
  by (simp add: print_info_def print_def)

lemma out_print: "out (print s w) = out w @ [s @ [LF]]"
  by (simp add: print_def)

lemma lookup_update_other:
  "q \<noteq> p \<Longrightarrow> lookup (AList.update p v fsys) q = lookup fsys q"
  by (simp add: lookup_def update_conv')

lemma lookup_update_same:
  "p \<noteq> [] \<Longrightarrow> lookup (AList.update p v fsys) p = Some v"
  by (simp add: lookup_def update_conv')

lemma write_file_exists:
  "write_file fsys p c = Inr fsys' \<Longrightarrow> path_exists fsys' p"
  by (cases "p = []")
     (auto simp: write_file_def path_exists_def lookup_def update_conv'
           split: option.splits entry.splits if_splits)

lemma write_file_keeps:
  "write_file fsys p c = Inr fsys' \<Longrightarrow> lookup fsys q = Some Dir \<Longrightarrow> lookup fsys' q = Some Dir"
  by (cases "q = p")
     (auto simp: write_file_def lookup_update_other split: option.splits entry.splits)

lemma write_file_content:
  assumes "write_file fsys p c = Inr fsys'"
  shows "lookup fsys' p = Some (File c)"
proof (cases "p = []")
  case True
  then have "write_file fsys p c = Inl IsADirectoryError"
    by (simp add: write_file_def lookup_def)
  with assms show ?thesis by simp
next
  case False
  from assms have "fsys' = AList.update p (File c) fsys"
    by (auto simp: write_file_def split: option.splits entry.splits)
  with False show ?thesis by (simp add: lookup_update_same)
qed

lemma mkdir_parents_keeps:
  "mkdir_parents fsys pre cs = Inr fsys' \<Longrightarrow> lookup fsys q = Some en \<Longrightarrow> lookup fsys' q = Some en"
proof (induction cs arbitrary: fsys pre)
  case Nil
  then show ?case by simp
next
  case (Cons c cs)
  show ?case
  proof (cases "lookup fsys (pre @ [c])")
    case None
    with Cons.prems have m: "mkdir_parents (AList.update (pre @ [c]) Dir fsys) (pre @ [c]) cs = Inr fsys'"
      by simp
    from None Cons.prems(2) have "q \<noteq> pre @ [c]" by auto
    then have "lookup (AList.update (pre @ [c]) Dir fsys) q = Some en"
      using Cons.prems(2) by (simp add: lookup_update_other)
    with Cons.IH [OF m] show ?thesis .
  next
    case (Some en')
    with Cons.prems obtain m: "mkdir_parents fsys (pre @ [c]) cs = Inr fsys'"
      by (cases en') (auto split: if_splits)
    from Cons.IH [OF m Cons.prems(2)] show ?thesis .
  qed
qed

lemma mkdir_parents_made:
  "mkdir_parents fsys pre cs = Inr fsys' \<Longrightarrow> lookup fsys pre = Some Dir \<Longrightarrow>
   lookup fsys' (pre @ cs) = Some Dir"
proof (induction cs arbitrary: fsys pre)
  case Nil
  then show ?case by simp
next
  case (Cons c cs)
  show ?case
  proof (cases "lookup fsys (pre @ [c])")
    case None
    with Cons.prems have m: "mkdir_parents (AList.update (pre @ [c]) Dir fsys) (pre @ [c]) cs = Inr fsys'"
      by simp
    have "lookup (AList.update (pre @ [c]) Dir fsys) (pre @ [c]) = Some Dir"
      by (simp add: lookup_update_same)
    from Cons.IH [OF m this] show ?thesis by simp
  next
    case (Some en)
    with Cons.prems obtain m: "mkdir_parents fsys (pre @ [c]) cs = Inr fsys'" and d: "en = Dir"
      by (cases en) (auto split: if_splits)
    from Cons.IH [OF m] Some d show ?thesis by simp
  qed
qed

lemma touch_keeps:
  "touch fsys p = Inr fsys' \<Longrightarrow> lookup fsys q = Some en \<Longrightarrow> lookup fsys' q = Some en"
  by (cases "q = p")
     (auto simp: touch_def lookup_update_other split: option.splits entry.splits)

section \<open>Facts about the steps of the script\<close>

lemma and_then_Inr:
  "and_then m f w = Inr r \<longleftrightarrow> (\<exists>x w'. m w = Inr (x, w') \<and> f x w' = Inr r)"
  by (auto simp: and_then_def split: sum.splits)

lemma input_Inr:
  "input p w = Inr (x, w') \<longleftrightarrow> (\<exists>ls. stdin w = x # ls \<and> w' = w\<lparr>out := out w @ [p], stdin := ls\<rparr>)"
  by (auto simp: input_def Let_def split: list.splits)

lemma input_result:
  assumes "input p w = Inr (x, w')"
  shows "fs w' = fs w" and "out w' = out w @ [p]" and "stdin w = x # stdin w'"
  using assms by (auto simp: input_Inr)

lemma make_package_dir_made:
  "make_package_dir e name w = Inr (u, w') \<Longrightarrow>
   lookup (fs w') (resolve (cwd e) (''src/'' @ name)) = Some Dir"
proof -
  assume a: "make_package_dir e name w = Inr (u, w')"
  then obtain f1 f2 where
    m: "mkdir_parents (fs w) [] (resolve (cwd e) (''src/'' @ name)) = Inr f1"
    and t: "touch f1 (resolve (cwd e) (''src/'' @ name @ ''/__init__.py'')) = Inr f2"
    and w': "fs w' = f2"
    by (auto simp: make_package_dir_def split: sum.splits)
  have "lookup (fs w) [] = Some Dir" by (simp add: lookup_def)
  from mkdir_parents_made [OF m this] have "lookup f1 (resolve (cwd e) (''src/'' @ name)) = Some Dir"
    by simp
  from touch_keeps [OF t this] w' show ?thesis by simp
qed

lemma make_package_dir_out: "make_package_dir e n w = Inr (u, w') \<Longrightarrow> out w' = out w"
  by (auto simp: make_package_dir_def split: sum.splits)

lemma makedirs_tests_keeps:
  "makedirs_tests e w = Inr (u, w') \<Longrightarrow> lookup (fs w) q = Some Dir \<Longrightarrow> lookup (fs w') q = Some Dir"
  by (auto simp: makedirs_tests_def split: sum.splits dest: mkdir_parents_keeps)

lemma makedirs_tests_out: "makedirs_tests e w = Inr (u, w') \<Longrightarrow> out w' = out w"
  by (auto simp: makedirs_tests_def split: sum.splits)

lemma convert_requirements_to_poetry_world:
  "convert_requirements_to_poetry e w = Inr (x, w') \<Longrightarrow> w' = w"
  by (auto simp: convert_requirements_to_poetry_def split: if_splits sum.splits)

lemma convert_requirements_to_poetry_file:
  assumes "lookup (fs w) (resolve (cwd e) ''requirements.txt'') = Some (File c)"
  shows "convert_requirements_to_poetry e w =
           (if locale_decodes e c
            then Inr (str_join [LF]
                        (filter (\<lambda>l. l \<noteq> [] \<and> \<not> startswith l ''#'') (map strip (file_lines c))), w)
            else Inl (Uncaught UnicodeDecodeError, w))"
  using assms
  by (simp add: convert_requirements_to_poetry_def path_exists_def read_text_def read_file_def
                collect_deps_filter file_lines_def)

lemma make_package_dir_keeps:
  assumes "make_package_dir e name w = Inr (u, w')" and "lookup (fs w) q = Some en"
  shows "lookup (fs w') q = Some en"
proof -
  from assms(1) obtain f1 f2 where
    m: "mkdir_parents (fs w) [] (resolve (cwd e) (''src/'' @ name)) = Inr f1"
    and t: "touch f1 (resolve (cwd e) (''src/'' @ name @ ''/__init__.py'')) = Inr f2"
    and w': "fs w' = f2"
    by (auto simp: make_package_dir_def split: sum.splits)
  from touch_keeps [OF t mkdir_parents_keeps [OF m assms(2)]] w' show ?thesis by simp
qed

lemma write_manifest_state:
  "write_manifest e st c w = Inr (st', w') \<Longrightarrow> st' = st"
  by (auto simp: write_manifest_def split: sum.splits)

lemma write_manifest_result:
  assumes "write_manifest e st c w = Inr (st', w')"
  shows "st' = st"
    and "lookup (fs w') (resolve (cwd e) ''pyproject.toml'') = Some (File (strip_content c))"
    and "lookup (fs w) q = Some Dir \<Longrightarrow> lookup (fs w') q = Some Dir"
    and "out w' = out w @ [GREEN @ check_mark @ '' pyproject.toml created.'' @ RESET @ [LF]]"
  using assms
  by (auto simp: write_manifest_def print_success_def print_def split: sum.splits
           dest: write_file_content write_file_keeps)

lemma create_pyproject_toml_files_state:
  "create_pyproject_toml_files e st v d a m w = Inr (st', w') \<Longrightarrow> st' = st"
  unfolding create_pyproject_toml_files_def
  by (auto simp: and_then_Inr Let_def dest!: write_manifest_state split: if_splits)

lemma create_pyproject_toml_files_result:
  assumes "create_pyproject_toml_files e st v d a m w = Inr (st', w')"
  shows "st' = st"
    and "lookup (fs w') (resolve (cwd e) (''src/'' @ package_name st)) = Some Dir"
    and "\<exists>x. lookup (fs w') (resolve (cwd e) ''pyproject.toml'') =
               Some (File (strip_content
                  (if use_poetry st then poetry_content (package_name st) v d a m x
                   else hatch_content (package_name st) v d a m x)))"
    and "set (out w) \<subseteq> set (out w')"
proof -
  from assms obtain u w1 where
    mk: "make_package_dir e (package_name st) w = Inr (u, w1)"
    unfolding create_pyproject_toml_files_def by (auto simp: and_then_Inr)
  note d1 = make_package_dir_made [OF mk]
  note o1 = make_package_dir_out [OF mk]
  show "st' = st"
    using assms by (rule create_pyproject_toml_files_state)
  show "lookup (fs w') (resolve (cwd e) (''src/'' @ package_name st)) = Some Dir"
    and "\<exists>x. lookup (fs w') (resolve (cwd e) ''pyproject.toml'') =
               Some (File (strip_content
                  (if use_poetry st then poetry_content (package_name st) v d a m x
                   else hatch_content (package_name st) v d a m x)))"
    and "set (out w) \<subseteq> set (out w')"
  proof (atomize (full), cases "use_poetry st")
    case True
    with assms mk obtain deps w2 where
      c: "convert_requirements_to_poetry e w1 = Inr (deps, w2)" and
      wm: "write_manifest e st (poetry_content (package_name st) v d a m (indent_dependencies deps)) w2 = Inr (st', w')"
      unfolding create_pyproject_toml_files_def by (auto simp: and_then_Inr)
    from convert_requirements_to_poetry_world [OF c] have w2: "w2 = w1" .
    from write_manifest_result [OF wm] d1 o1 True w2
    show "lookup (fs w') (resolve (cwd e) (''src/'' @ package_name st)) = Some Dir \<and>
      (\<exists>x. lookup (fs w') (resolve (cwd e) ''pyproject.toml'') =
               Some (File (strip_content
                  (if use_poetry st then poetry_content (package_name st) v d a m x
                   else hatch_content (package_name st) v d a m x)))) \<and>
      set (out w) \<subseteq> set (out w')"
      by auto
  next
    case False
    with assms mk obtain b w2 u' w3 where
      i: "input ''Build system (default: hatchling): '' w1 = Inr (b, w2)" and
      t: "makedirs_tests e w2 = Inr (u', w3)" and
      wm: "write_manifest e st (hatch_content (package_name st) v d a m (if b = [] then ''hatchling'' else b)) w3 = Inr (st', w')"
      unfolding create_pyproject_toml_files_def by (auto simp: and_then_Inr Let_def)
    from d1 input_result(1) [OF i] have "lookup (fs w2) (resolve (cwd e) (''src/'' @ package_name st)) = Some Dir"
      by simp
    from makedirs_tests_keeps [OF t this]
    have d3: "lookup (fs w3) (resolve (cwd e) (''src/'' @ package_name st)) = Some Dir" .
    have o3: "out w3 = out w @ [''Build system (default: hatchling): '']"
      using o1 input_result(2) [OF i] makedirs_tests_out [OF t] by simp
    from write_manifest_result [OF wm] d3 o3 False
    show "lookup (fs w') (resolve (cwd e) (''src/'' @ package_name st)) = Some Dir \<and>
      (\<exists>x. lookup (fs w') (resolve (cwd e) ''pyproject.toml'') =
               Some (File (strip_content
                  (if use_poetry st then poetry_content (package_name st) v d a m x
                   else hatch_content (package_name st) v d a m x)))) \<and>
      set (out w) \<subseteq> set (out w')"
      by auto
  qed
qed

lemma create_pyproject_toml_files_poetry:
  assumes "use_poetry st"
      and "create_pyproject_toml_files e st v d a m w = Inr (st', w')"
      and "lookup (fs w) (resolve (cwd e) ''requirements.txt'') = Some (File c)"
  shows "locale_decodes e c"
    and "lookup (fs w') (resolve (cwd e) ''pyproject.toml'') =
           Some (File (strip_content
              (poetry_content (package_name st) v d a m
                 (indent_dependencies
                    (str_join [LF]
                       (filter (\<lambda>l. l \<noteq> [] \<and> \<not> startswith l ''#'') (map strip (file_lines c))))))))"
proof -
  from assms(1,2) obtain u w1 deps w2 where
    mk: "make_package_dir e (package_name st) w = Inr (u, w1)" and
    c: "convert_requirements_to_poetry e w1 = Inr (deps, w2)" and
    wm: "write_manifest e st (poetry_content (package_name st) v d a m (indent_dependencies deps)) w2 = Inr (st', w')"
    unfolding create_pyproject_toml_files_def by (auto simp: and_then_Inr)
  from make_package_dir_keeps [OF mk assms(3)]
  have f: "lookup (fs w1) (resolve (cwd e) ''requirements.txt'') = Some (File c)" .
  from c convert_requirements_to_poetry_file [OF f]
  show l: "locale_decodes e c"
    by (auto split: if_splits)
  with c convert_requirements_to_poetry_file [OF f]
  have "deps = str_join [LF]
                 (filter (\<lambda>l. l \<noteq> [] \<and> \<not> startswith l ''#'') (map strip (file_lines c)))"
    by simp
  with write_manifest_result(2) [OF wm]
  show "lookup (fs w') (resolve (cwd e) ''pyproject.toml'') =
           Some (File (strip_content
              (poetry_content (package_name st) v d a m
                 (indent_dependencies
                    (str_join [LF]
                       (filter (\<lambda>l. l \<noteq> [] \<and> \<not> startswith l ''#'') (map strip (file_lines c))))))))"
    by simp
qed

lemma create_pyproject_toml_name:
  assumes "\<not> path_exists (fs w) (resolve (cwd e) ''pyproject.toml'')"
      and "stdin w = inp # rest"
      and "create_pyproject_toml e st w = Inr (st', w')"
  shows "st' = st\<lparr>package_name :=
                   (if inp \<noteq> [] then str_replace ''-'' ''_'' (lower (str_replace '' '' ''-'' inp))
                    else get_default_package_name e)\<rparr>"
  using assms
  unfolding create_pyproject_toml_def
  by (auto simp: and_then_Inr input_Inr Let_def dest!: create_pyproject_toml_files_state split: if_splits)

lemma create_pyproject_toml_chain:
  assumes "\<not> path_exists (fs w) (resolve (cwd e) ''pyproject.toml'')"
      and "create_pyproject_toml e st w = Inr (st', w')"
  shows "\<exists>v d a m w1. create_pyproject_toml_files e st' v d a m w1 = Inr (st', w')"
proof -
  from assms have "\<exists>st1 v d a m w1. create_pyproject_toml_files e st1 v d a m w1 = Inr (st', w')"
    unfolding create_pyproject_toml_def
    by (simp add: and_then_Inr Let_def) blast
  then obtain st1 v d a m w1 where f: "create_pyproject_toml_files e st1 v d a m w1 = Inr (st', w')"
    by blast
  from create_pyproject_toml_files_state [OF f] f show ?thesis by blast
qed

lemma get_git_config_result:
  assumes "get_git_config e key w = Inr (v, w')"
  shows "stdin w' = stdin w" and "out w' = out w"
    and "(\<forall>so fsys. run e (Argv [''git'', ''config'', ''--get'', key]) w \<noteq> Completed 0 so fsys) \<Longrightarrow> v = None"
  using assms
  by (auto simp: get_git_config_def subprocess_run_def Let_def split: proc.splits if_splits)

lemma create_pyproject_toml_steps:
  assumes "\<not> path_exists (fs w) (resolve (cwd e) ''pyproject.toml'')"
      and "create_pyproject_toml e st w = Inr (st', w')"
  shows "\<exists>n v d a m gn ge w1 w2 w3 w4.
           stdin w = n # v # d # a # m # stdin w4
         \<and> w1 = w\<lparr>out := out w @
                     [pointing_hand @ '' pyproject.toml not found. Let's create one.'' @ [LF],
                      ''Package name (default: '' @ get_default_package_name e @ ''): '',
                      ''Package version (default: 0.1.0): '',
                      ''Package description: ''],
                   stdin := drop 3 (stdin w)\<rparr>
         \<and> get_git_config e ''user.name'' w1 = Inr (gn, w2)
         \<and> get_git_config e ''user.email'' w2 = Inr (ge, w3)
         \<and> out w4 = out w3 @ [''Author name (default: '' @ str_or gn ''unnamed developer'' @ ''): '',
                               ''Author email (default: '' @ str_or ge ''developer@example.com'' @ ''): '']
         \<and> create_pyproject_toml_files e st'
               (if v = [] then ''0.1.0'' else v) d
               (if a = [] then str_or gn ''unnamed developer'' else a)
               (if m = [] then str_or ge ''developer@example.com'' else m) w4 = Inr (st', w')"
proof -
  let ?st1 = "\<lambda>n. st\<lparr>package_name :=
                   (if n \<noteq> [] then str_replace ''-'' ''_'' (lower (str_replace '' '' ''-'' n))
                    else get_default_package_name e)\<rparr>"
  from assms obtain n wa v wb d w1 gn w2 ge w3 a wc m w4 where
        i1: "input (''Package name (default: '' @ get_default_package_name e @ ''): '')
               (print_info ''pyproject.toml not found. Let's create one.'' w) = Inr (n, wa)"
    and i2: "input ''Package version (default: 0.1.0): '' wa = Inr (v, wb)"
    and i3: "input ''Package description: '' wb = Inr (d, w1)"
    and g1: "get_git_config e ''user.name'' w1 = Inr (gn, w2)"
    and g2: "get_git_config e ''user.email'' w2 = Inr (ge, w3)"
    and i4: "input (''Author name (default: '' @ str_or gn ''unnamed developer'' @ ''): '') w3 = Inr (a, wc)"
    and i5: "input (''Author email (default: '' @ str_or ge ''developer@example.com'' @ ''): '') wc = Inr (m, w4)"
    and f: "create_pyproject_toml_files e (?st1 n)
               (if v = [] then ''0.1.0'' else v) d
               (if a = [] then str_or gn ''unnamed developer'' else a)
               (if m = [] then str_or ge ''developer@example.com'' else m) w4 = Inr (st', w')"
    unfolding create_pyproject_toml_def
    by (simp add: and_then_Inr Let_def) blast
  from create_pyproject_toml_files_state [OF f] have st: "?st1 n = st'" by simp
  have "stdin w = n # stdin wa"
    using input_result(3) [OF i1] by simp
  moreover note input_result(3) [OF i2] input_result(3) [OF i3]
    get_git_config_result(1) [OF g1] get_git_config_result(1) [OF g2]
    input_result(3) [OF i4] input_result(3) [OF i5]
  ultimately have s: "stdin w = n # v # d # a # m # stdin w4" by simp
  have o: "out w4 = out w3 @ [''Author name (default: '' @ str_or gn ''unnamed developer'' @ ''): '',
                               ''Author email (default: '' @ str_or ge ''developer@example.com'' @ ''): '']"
    using input_result(2) [OF i4] input_result(2) [OF i5] by simp
  have w1: "w1 = w\<lparr>out := out w @
                     [pointing_hand @ '' pyproject.toml not found. Let's create one.'' @ [LF],
                      ''Package name (default: '' @ get_default_package_name e @ ''): '',
                      ''Package version (default: 0.1.0): '',
                      ''Package description: ''],
                   stdin := drop 3 (stdin w)\<rparr>"
    using i1 i2 i3 by (auto simp: input_Inr print_info_def print_def)
  from s w1 g1 g2 o f [unfolded st] show ?thesis by blast
qed

lemma create_pyproject_toml_exists:
  assumes "create_pyproject_toml e st w = Inr (st', w')"
  shows "path_exists (fs w') (resolve (cwd e) ''pyproject.toml'')"
proof (cases "path_exists (fs w) (resolve (cwd e) ''pyproject.toml'')")
  case True
  with assms have "w' = print_success ''pyproject.toml already exists.'' w"
    by (simp add: create_pyproject_toml_def)
  with True show ?thesis by simp
next
  case False
  from create_pyproject_toml_chain [OF False assms] obtain v d a m w1 where
    "create_pyproject_toml_files e st' v d a m w1 = Inr (st', w')" by blast
  from create_pyproject_toml_files_result(3) [OF this] show ?thesis
    by (auto simp: path_exists_def)
qed





section \<open>The example run of the manifest generator\<close>

lemma ex_run:
  "\<exists>st' w'. create_pyproject_toml ex_env init ex_world_input = Inr (st', w')"
  by (simp add: create_pyproject_toml_def create_pyproject_toml_files_def and_then_def input_def
        get_git_config_def subprocess_run_def make_package_dir_def touch_def makedirs_tests_def
        write_manifest_def write_file_def init_def print_info_def print_def
        str_replace_def lower_def lower_char_def ascii_uppercase_def ascii_lowercase_def
        update_conv' ex_world_input_def ex_defs path_defs)

lemma ex_no_manifest:
  "\<not> path_exists (fs ex_world_input) (resolve (cwd ex_env) ''pyproject.toml'')"
  by (simp add: ex_world_input_def ex_defs path_defs)

lemma ex_name:
  "str_replace ''-'' ''_'' (lower (str_replace '' '' ''-'' ''My Pkg-X'')) = ''my_pkg_x''"
  by (simp add: str_replace_def lower_def lower_char_def ascii_uppercase_def ascii_lowercase_def)

section \<open>The claims\<close>

text \<open>
  C1. Files that exist are kept. When \<open>pyproject.toml\<close> exists, \<open>_create_pyproject_toml\<close>
  prints that it already exists and returns: no prompt is read and the file system is
  the one it was given. When the file named exists, \<open>_write_if_missing\<close> does the same.
  After a run of \<open>_write_if_missing\<close> that returned, a second run (with any content)
  only reports that the file exists; after a run of \<open>_create_pyproject_toml\<close> that
  returned, a second run only reports that the manifest exists.
\<close>

theorem existing_files_are_kept:
  "(path_exists (fs w) (resolve (cwd e) ''pyproject.toml'') \<longrightarrow>
      create_pyproject_toml e st w = Inr (st, print_success ''pyproject.toml already exists.'' w))
   \<and> (path_exists (fs w) (resolve (cwd e) filename) \<longrightarrow>
      write_if_missing e filename content w =
        Inr ((), print_success (filename @ '' already exists.'') w))
   \<and> fs (print_success msg w) = fs w
   \<and> (write_if_missing e filename content w = Inr ((), w1) \<longrightarrow>
      write_if_missing e filename content' w1 =
        Inr ((), print_success (filename @ '' already exists.'') w1))
   \<and> (create_pyproject_toml e st w = Inr (st1, w2) \<longrightarrow>
      create_pyproject_toml e st2 w2 =
        Inr (st2, print_success ''pyproject.toml already exists.'' w2))"
proof -
  have a: "path_exists (fs v) (resolve (cwd e) ''pyproject.toml'') \<longrightarrow>
      create_pyproject_toml e s v = Inr (s, print_success ''pyproject.toml already exists.'' v)" for s v
    by (simp add: create_pyproject_toml_def)
  have b: "path_exists (fs v) (resolve (cwd e) filename) \<longrightarrow>
      write_if_missing e filename c v =
        Inr ((), print_success (filename @ '' already exists.'') v)" for v c
    by (simp add: write_if_missing_def)
  have c: "write_if_missing e filename content w = Inr ((), w1) \<longrightarrow>
      path_exists (fs w1) (resolve (cwd e) filename)"
    by (auto simp: write_if_missing_def Let_def dest: write_file_exists
             split: if_splits sum.splits)
  have d: "create_pyproject_toml e st w = Inr (st1, w2) \<longrightarrow>
      path_exists (fs w2) (resolve (cwd e) ''pyproject.toml'')"
    by (auto dest: create_pyproject_toml_exists)
  show ?thesis
    using a [of w st] a [of w2 st2] b [of w content] b [of w1 content'] c d by simp
qed

theorem existing_files_are_kept_witness:
  "create_pyproject_toml ex_env init ex_world_manifest =
     Inr (init, print_success ''pyproject.toml already exists.'' ex_world_manifest)
   \<and> write_if_missing ex_env ''requirements.txt'' ''# project requirements'' ex_world_requirements =
     Inr ((), print_success ''requirements.txt already exists.'' ex_world_requirements)
   \<and> fs (print_success ''requirements.txt already exists.'' ex_world_requirements) = fs ex_world_requirements
   \<and> (\<exists>w1. write_if_missing ex_env ''requirements.txt'' ''# project requirements'' ex_world = Inr ((), w1)
         \<and> write_if_missing ex_env ''requirements.txt'' ''# project requirements'' w1 =
             Inr ((), print_success ''requirements.txt already exists.'' w1))
   \<and> (\<exists>st1 w2. create_pyproject_toml ex_env init ex_world_input = Inr (st1, w2)
         \<and> create_pyproject_toml ex_env st1 w2 =
             Inr (st1, print_success ''pyproject.toml already exists.'' w2))"
proof -
  have m: "path_exists (fs ex_world_manifest) (resolve (cwd ex_env) ''pyproject.toml'')"
    by (simp add: ex_defs path_defs)
  have r: "path_exists (fs ex_world_requirements) (resolve (cwd ex_env) ''requirements.txt'')"
    by (simp add: ex_defs path_defs)
  have "\<exists>w1. write_if_missing ex_env ''requirements.txt'' ''# project requirements'' ex_world = Inr ((), w1)"
    by (simp add: write_if_missing_def write_file_def ex_defs path_defs print_info_def print_def)
  then obtain w1 where
    w1: "write_if_missing ex_env ''requirements.txt'' ''# project requirements'' ex_world = Inr ((), w1)"
    by blast
  from ex_run obtain st1 w2 where
    w2: "create_pyproject_toml ex_env init ex_world_input = Inr (st1, w2)"
    by blast
  have p1: "create_pyproject_toml ex_env init ex_world_manifest =
     Inr (init, print_success ''pyproject.toml already exists.'' ex_world_manifest)"
    using existing_files_are_kept [of ex_world_manifest ex_env init] m by blast
  have p2: "write_if_missing ex_env ''requirements.txt'' ''# project requirements'' ex_world_requirements =
     Inr ((), print_success ''requirements.txt already exists.'' ex_world_requirements)"
    using existing_files_are_kept [of ex_world_requirements ex_env init "''requirements.txt''" "''# project requirements''"] r
    by simp
  have p3: "write_if_missing ex_env ''requirements.txt'' ''# project requirements'' w1 =
             Inr ((), print_success ''requirements.txt already exists.'' w1)"
    using existing_files_are_kept [of ex_world ex_env init "''requirements.txt''" "''# project requirements''" "[]" w1
                 "''# project requirements''"] w1
    by simp
  have p4: "create_pyproject_toml ex_env st1 w2 =
             Inr (st1, print_success ''pyproject.toml already exists.'' w2)"
    using existing_files_are_kept [of ex_world_input ex_env init "[]" "[]" "[]" ex_world_input "[]" st1 w2 st1] w2
    by blast
  from p1 p2 p3 p4 w1 w2 show ?thesis
    by auto
qed

text \<open>
  C2. Tool detection by marker priority. When \<open>pyproject.toml\<close> is a file whose bytes
  are UTF-8, so that it has a text, \<open>_detect_project_tool\<close> answers \<open>poetry\<close> if
  \<open>[tool.poetry]\<close> occurs anywhere in it; otherwise \<open>hatch\<close> if \<open>[tool.hatch]\<close> occurs
  anywhere; otherwise \<open>flit\<close> if \<open>[tool.flit]\<close> occurs anywhere; otherwise \<open>None\<close>. Where
  the markers stand plays no part, and it is the same whether one looks at the bytes of
  the file or at the text Python reads (with its newlines translated). A file that is
  not UTF-8 has no text: reading it raises, and the answer is \<open>None\<close>.
\<close>

theorem detect_project_tool_priority:
  assumes "lookup (fs w) (resolve (cwd e) ''pyproject.toml'') = Some (File bytes)"
  shows "(valid_utf8 bytes \<longrightarrow>
            detect_project_tool e w =
              (if \<exists>a b. bytes = a @ ''[tool.poetry]'' @ b then Some ''poetry''
               else if \<exists>a b. bytes = a @ ''[tool.hatch]'' @ b then Some ''hatch''
               else if \<exists>a b. bytes = a @ ''[tool.flit]'' @ b then Some ''flit''
               else None)
          \<and> detect_project_tool e w =
              (if \<exists>a b. universal_newlines bytes = a @ ''[tool.poetry]'' @ b then Some ''poetry''
               else if \<exists>a b. universal_newlines bytes = a @ ''[tool.hatch]'' @ b then Some ''hatch''
               else if \<exists>a b. universal_newlines bytes = a @ ''[tool.flit]'' @ b then Some ''flit''
               else None))
       \<and> (\<not> valid_utf8 bytes \<longrightarrow> detect_project_tool e w = None)"
proof -
  have m: "contains ''[tool.poetry]'' (universal_newlines bytes) = contains ''[tool.poetry]'' bytes"
    "contains ''[tool.hatch]'' (universal_newlines bytes) = contains ''[tool.hatch]'' bytes"
    "contains ''[tool.flit]'' (universal_newlines bytes) = contains ''[tool.flit]'' bytes"
    by (simp_all add: contains_universal_newlines CR_def LF_def)
  have d: "detect_project_tool e w =
           (if contains ''[tool.poetry]'' (universal_newlines bytes) then Some ''poetry''
            else if contains ''[tool.hatch]'' (universal_newlines bytes) then Some ''hatch''
            else if contains ''[tool.flit]'' (universal_newlines bytes) then Some ''flit''
            else None)"
    if "valid_utf8 bytes"
    using assms that
    by (simp add: detect_project_tool_def path_exists_def read_text_def read_file_def)
  have n: "detect_project_tool e w = None" if "\<not> valid_utf8 bytes"
    using assms that
    by (simp add: detect_project_tool_def path_exists_def read_text_def read_file_def)
  have v: "detect_project_tool e w =
              (if \<exists>a b. bytes = a @ ''[tool.poetry]'' @ b then Some ''poetry''
               else if \<exists>a b. bytes = a @ ''[tool.hatch]'' @ b then Some ''hatch''
               else if \<exists>a b. bytes = a @ ''[tool.flit]'' @ b then Some ''flit''
               else None)
          \<and> detect_project_tool e w =
              (if \<exists>a b. universal_newlines bytes = a @ ''[tool.poetry]'' @ b then Some ''poetry''
               else if \<exists>a b. universal_newlines bytes = a @ ''[tool.hatch]'' @ b then Some ''hatch''
               else if \<exists>a b. universal_newlines bytes = a @ ''[tool.flit]'' @ b then Some ''flit''
               else None)"
    if "valid_utf8 bytes"
    using d [OF that] by (simp only: m contains_iff [symmetric] simp_thms)
  from v n show ?thesis by blast
qed

theorem detect_project_tool_priority_witness:
  "detect_project_tool ex_env ex_world_manifest = Some ''poetry''
   \<and> detect_project_tool ex_env ex_world_undecodable = None"
proof -
  have f: "lookup (fs ex_world_manifest) (resolve (cwd ex_env) ''pyproject.toml'') = Some (File ex_manifest)"
    by (simp add: ex_world_manifest_def ex_world_def ex_env_def lookup_def resolve_def path_parts_def)
  have v: "valid_utf8 ex_manifest"
    by (simp add: ex_manifest_def utf8_defs)
  have "ex_manifest = (''[tool.flit]'' @ [LF] @ ''[tool.hatch]'' @ [LF]) @ ''[tool.poetry]'' @ [LF]"
    by (simp add: ex_manifest_def)
  then have p: "\<exists>a b. ex_manifest = a @ ''[tool.poetry]'' @ b"
    by blast
  have 1: "detect_project_tool ex_env ex_world_manifest = Some ''poetry''"
    using detect_project_tool_priority [OF f] v p by simp
  have g: "lookup (fs ex_world_undecodable) (resolve (cwd ex_env) ''pyproject.toml'') =
             Some (File (CHR 0xFF # ex_manifest))"
    by (simp add: ex_world_undecodable_def ex_world_def ex_env_def lookup_def resolve_def path_parts_def)
  have u: "\<not> valid_utf8 (CHR 0xFF # ex_manifest)"
    by (simp add: utf8_defs)
  have 2: "detect_project_tool ex_env ex_world_undecodable = None"
    using detect_project_tool_priority [OF g] u by blast
  from 1 2 show ?thesis by blast
qed

text \<open>
  C3. An unsupported operating system stops the run. When the system name is neither
  \<open>Darwin\<close> nor \<open>Linux\<close>, \<open>setup\<close> (and so \<open>main\<close>) ends with \<open>sys.exit(1)\<close>; it has printed the detection
  line and the error line and nothing else, has read no input, has run no subprocess,
  and the file system is untouched.
\<close>

theorem unsupported_os_exits:
  assumes "sysname e \<noteq> ''Darwin''" and "sysname e \<noteq> ''Linux''"
  shows "\<exists>w'. run_setup e st w = Inl (SysExit 1, w')
           \<and> main e w = Inl (SysExit 1, w')
           \<and> fs w' = fs w \<and> cmds w' = cmds w \<and> stdin w' = stdin w
           \<and> out w' = out w @ [brain @ '' Detecting OS and architecture...'' @ [LF],
                                RED @ cross_mark @ '' Unsupported OS: '' @ sysname e @ RESET @ [LF]]"
  using assms
  by (simp add: main_def run_setup_def and_then_def detect_platform_def print_error_def print_def)

theorem unsupported_os_exits_witness:
  "\<exists>w'. run_setup (ex_env\<lparr>sysname := ''FreeBSD''\<rparr>) init ex_world = Inl (SysExit 1, w')
         \<and> main (ex_env\<lparr>sysname := ''FreeBSD''\<rparr>) ex_world = Inl (SysExit 1, w')
         \<and> fs w' = fs ex_world \<and> cmds w' = cmds ex_world \<and> stdin w' = stdin ex_world
         \<and> out w' = out ex_world @ [brain @ '' Detecting OS and architecture...'' @ [LF],
                                RED @ cross_mark @ '' Unsupported OS: FreeBSD'' @ RESET @ [LF]]"
  using unsupported_os_exits [of "ex_env\<lparr>sysname := ''FreeBSD''\<rparr>" init ex_world]
  by simp

text \<open>
  C4. The dependency block of the poetry manifest. The claim asks for one entry for
  every stripped line of \<open>requirements.txt\<close> that is neither empty nor a comment, each
  indented, and nothing else. The manifest generator misses this twice, shown here on
  two runs of \<open>_create_pyproject_toml\<close> with poetry chosen.
  \<^item> \<open>_convert_requirements_to_poetry\<close> takes the line \<open>a\fb\<close> (a form feed inside) as
    one dependency, and \<open>_indent_dependencies\<close> splits its text again with
    \<open>str.splitlines\<close>, for which a form feed ends a line: the manifest has the two
    entries \<open>a\<close> and \<open>b\<close>, neither of which is a line of the file.
  \<^item> \<open>_indent_dependencies\<close> puts four spaces before each entry and \<open>_strip_content\<close>
    strips every line of the template again: for the file of the specification's
    example the manifest has \<open>requests>=2\<close> and \<open>flask\<close> at the start of their lines.
\<close>

theorem manifest_dependency_block:
  "filter (\<lambda>l. l \<noteq> [] \<and> \<not> startswith l ''#'')
          (map strip (file_lines (''a'' @ [CHR 0x0C] @ ''b'' @ [LF]))) = [''a'' @ [CHR 0x0C] @ ''b'']
   \<and> (\<exists>st' w'. create_pyproject_toml ex_env (init\<lparr>use_poetry := True\<rparr>)
                   (ex_world_formfeed\<lparr>stdin := ex_poetry_answers\<rparr>) = Inr (st', w')
          \<and> lookup (fs w') (resolve (cwd ex_env) ''pyproject.toml'') =
              Some (File (ex_poetry_manifest [''a'', ''b''])))
   \<and> (\<exists>st' w'. create_pyproject_toml ex_env (init\<lparr>use_poetry := True\<rparr>)
                   (ex_world_requirements\<lparr>stdin := ex_poetry_answers\<rparr>) = Inr (st', w')
          \<and> lookup (fs w') (resolve (cwd ex_env) ''pyproject.toml'') =
              Some (File (ex_poetry_manifest [''requests>=2'', ''flask''])))"
proof -
  have 1: "filter (\<lambda>l. l \<noteq> [] \<and> \<not> startswith l ''#'')
          (map strip (file_lines (''a'' @ [CHR 0x0C] @ ''b'' @ [LF]))) = [''a'' @ [CHR 0x0C] @ ''b'']"
    by (simp add: str_defs)
  have 2: "\<exists>st' w'. create_pyproject_toml ex_env (init\<lparr>use_poetry := True\<rparr>)
                   (ex_world_formfeed\<lparr>stdin := ex_poetry_answers\<rparr>) = Inr (st', w')
          \<and> lookup (fs w') (resolve (cwd ex_env) ''pyproject.toml'') =
              Some (File (ex_poetry_manifest [''a'', ''b'']))"
    by (simp add: run_defs ex_world_formfeed_def ex_poetry_answers_def ex_poetry_manifest_def
                  ex_defs path_defs str_defs utf8_defs)
  have 3: "\<exists>st' w'. create_pyproject_toml ex_env (init\<lparr>use_poetry := True\<rparr>)
                   (ex_world_requirements\<lparr>stdin := ex_poetry_answers\<rparr>) = Inr (st', w')
          \<and> lookup (fs w') (resolve (cwd ex_env) ''pyproject.toml'') =
              Some (File (ex_poetry_manifest [''requests>=2'', ''flask'']))"
    by (simp add: run_defs ex_poetry_answers_def ex_poetry_manifest_def
                  ex_defs path_defs str_defs utf8_defs)
  from 1 2 3 show ?thesis by blast
qed

text \<open>
  Away from these two slips the generator does what the claim says. When poetry is
  chosen and \<open>requirements.txt\<close> is a file, a run that returns has written the stripped
  poetry template around the dependency block of the file's kept lines; and when no
  kept line has a line boundary of \<open>str.splitlines\<close> inside, that block holds each kept
  line once, in the file's order, behind four spaces, and nothing else.
\<close>

lemma dependency_block:
  assumes "\<forall>dep\<in>set (filter (\<lambda>l. l \<noteq> [] \<and> \<not> startswith l ''#'') (map strip (file_lines c))).
             \<forall>ch\<in>set dep. \<not> is_boundary ch"
  shows "indent_dependencies
           (str_join [LF]
              (filter (\<lambda>l. l \<noteq> [] \<and> \<not> startswith l ''#'') (map strip (file_lines c)))) =
         str_join [LF]
           (map (\<lambda>l. ''    '' @ l)
              (filter (\<lambda>l. l \<noteq> [] \<and> \<not> startswith l ''#'') (map strip (file_lines c))))"
proof -
  let ?deps = "filter (\<lambda>l. l \<noteq> [] \<and> \<not> startswith l ''#'') (map strip (file_lines c))"
  have plain: "\<forall>d\<in>set ?deps. d \<noteq> [] \<and> (\<forall>ch\<in>set d. \<not> is_boundary ch)"
    using assms by auto
  have stripped: "\<forall>d\<in>set ?deps. strip d \<noteq> []"
    by (auto simp: strip_idem)
  have "splitlines (str_join [LF] ?deps) = ?deps"
    using plain by (rule splitlines_join)
  then have "filter (\<lambda>dep. strip dep \<noteq> []) (splitlines (str_join [LF] ?deps)) = ?deps"
    using stripped by (simp only: filter_True)
  then show ?thesis
    by (simp add: indent_dependencies_def replicate_4)
qed

lemma dependency_block_in_manifest:
  assumes "use_poetry st"
      and "create_pyproject_toml_files e st v d a m w = Inr (st', w')"
      and "lookup (fs w) (resolve (cwd e) ''requirements.txt'') = Some (File c)"
      and "\<forall>dep\<in>set (filter (\<lambda>l. l \<noteq> [] \<and> \<not> startswith l ''#'') (map strip (file_lines c))).
             \<forall>ch\<in>set dep. \<not> is_boundary ch"
  shows "lookup (fs w') (resolve (cwd e) ''pyproject.toml'') =
           Some (File (strip_content
              (poetry_content (package_name st) v d a m
                 (str_join [LF]
                    (map (\<lambda>l. ''    '' @ l)
                       (filter (\<lambda>l. l \<noteq> [] \<and> \<not> startswith l ''#'')
                               (map strip (file_lines c))))))))"
  using create_pyproject_toml_files_poetry(2) [OF assms(1,2,3)] dependency_block [OF assms(4)]
  by simp




text \<open>
  C6. The default package name is the base name of the working directory, lowercased,
  with every space and every hyphen replaced by an underscore; for a directory named
  \<open>My Project\<close> it is \<open>my_project\<close>.
\<close>

theorem default_package_name:
  "get_default_package_name e =
     map (\<lambda>c. if c = CHR '' '' \<or> c = CHR ''-'' then CHR ''_'' else c) (lower (path_name (cwd e)))
   \<and> (path_name (cwd e) = ''My Project'' \<longrightarrow> get_default_package_name e = ''my_project'')"
  by (simp add: get_default_package_name_def str_replace_single lower_ex)

theorem default_package_name_witness:
  "path_name (cwd ex_env) = ''My Project'' \<and> get_default_package_name ex_env = ''my_project''"
proof -
  have n: "path_name (cwd ex_env) = ''My Project''"
    by (simp add: ex_env_def path_name_def path_parts_def)
  with default_package_name [of ex_env] show ?thesis by blast
qed

text \<open>
  C7. The identity lookup never raises. Whatever \<open>git config --get <key>\<close> does
  (\<open>subprocess.run\<close> raises, the command returns any code and prints anything),
  \<open>_get_git_config\<close> returns a value; when the command did not complete with code 0 the
  value is \<open>None\<close>. In a run of \<open>_create_pyproject_toml\<close> that creates the manifest, the
  name is looked up in the world left by the first three prompts and the e-mail address
  in the world the first lookup leaves. Each lookup on its own decides its default: the
  author prompts show \<open>name or "unnamed developer"\<close> and
  \<open>email or "developer@example.com"\<close>, so a failed name lookup gives the prompt
  \<open>unnamed developer\<close> and a failed e-mail lookup the prompt \<open>developer@example.com\<close>,
  whatever the other lookup did; and an empty answer to a prompt puts its default into
  the manifest.
\<close>

theorem git_config_never_raises:
  "(\<exists>v w'. get_git_config e key w = Inr (v, w'))
   \<and> ((\<forall>so fsys. run e (Argv [''git'', ''config'', ''--get'', key]) w \<noteq> Completed 0 so fsys) \<longrightarrow>
        (\<exists>w'. get_git_config e key w = Inr (None, w')))
   \<and> (\<not> path_exists (fs u0) (resolve (cwd e) ''pyproject.toml'')
        \<and> create_pyproject_toml e st u0 = Inr (st', u') \<longrightarrow>
        (\<exists>w1 w2 w3 name email.
            w1 = u0\<lparr>out := out u0 @
                       [pointing_hand @ '' pyproject.toml not found. Let's create one.'' @ [LF],
                        ''Package name (default: '' @ get_default_package_name e @ ''): '',
                        ''Package version (default: 0.1.0): '',
                        ''Package description: ''],
                     stdin := drop 3 (stdin u0)\<rparr>
          \<and> get_git_config e ''user.name'' w1 = Inr (name, w2)
          \<and> get_git_config e ''user.email'' w2 = Inr (email, w3)
          \<and> ''Author name (default: '' @ str_or name ''unnamed developer'' @ ''): '' \<in> set (out u')
          \<and> ''Author email (default: '' @ str_or email ''developer@example.com'' @ ''): ''
                \<in> set (out u')
          \<and> ((\<forall>so fsys. run e (Argv [''git'', ''config'', ''--get'', ''user.name'']) w1 \<noteq>
                  Completed 0 so fsys) \<longrightarrow>
               ''Author name (default: unnamed developer): '' \<in> set (out u'))
          \<and> ((\<forall>so fsys. run e (Argv [''git'', ''config'', ''--get'', ''user.email'']) w2 \<noteq>
                  Completed 0 so fsys) \<longrightarrow>
               ''Author email (default: developer@example.com): '' \<in> set (out u'))
          \<and> (\<forall>n v d a m rest. stdin u0 = n # v # d # a # m # rest \<longrightarrow>
               (\<exists>x. lookup (fs u') (resolve (cwd e) ''pyproject.toml'') =
                  Some (File (strip_content
                    (if use_poetry st'
                     then poetry_content (package_name st') (if v = [] then ''0.1.0'' else v) d
                            (if a = [] then str_or name ''unnamed developer'' else a)
                            (if m = [] then str_or email ''developer@example.com'' else m) x
                     else hatch_content (package_name st') (if v = [] then ''0.1.0'' else v) d
                            (if a = [] then str_or name ''unnamed developer'' else a)
                            (if m = [] then str_or email ''developer@example.com'' else m) x)))))))"
proof -
  have a: "\<exists>v w'. get_git_config e key w = Inr (v, w')"
    by (auto simp: get_git_config_def subprocess_run_def Let_def split: proc.splits)
  have b: "(\<forall>so fsys. run e (Argv [''git'', ''config'', ''--get'', key]) w \<noteq> Completed 0 so fsys) \<longrightarrow>
        (\<exists>w'. get_git_config e key w = Inr (None, w'))"
    by (auto simp: get_git_config_def subprocess_run_def Let_def split: proc.splits)
  have c: "\<exists>w1 w2 w3 name email.
            w1 = u0\<lparr>out := out u0 @
                       [pointing_hand @ '' pyproject.toml not found. Let's create one.'' @ [LF],
                        ''Package name (default: '' @ get_default_package_name e @ ''): '',
                        ''Package version (default: 0.1.0): '',
                        ''Package description: ''],
                     stdin := drop 3 (stdin u0)\<rparr>
          \<and> get_git_config e ''user.name'' w1 = Inr (name, w2)
          \<and> get_git_config e ''user.email'' w2 = Inr (email, w3)
          \<and> ''Author name (default: '' @ str_or name ''unnamed developer'' @ ''): '' \<in> set (out u')
          \<and> ''Author email (default: '' @ str_or email ''developer@example.com'' @ ''): ''
                \<in> set (out u')
          \<and> ((\<forall>so fsys. run e (Argv [''git'', ''config'', ''--get'', ''user.name'']) w1 \<noteq>
                  Completed 0 so fsys) \<longrightarrow>
               ''Author name (default: unnamed developer): '' \<in> set (out u'))
          \<and> ((\<forall>so fsys. run e (Argv [''git'', ''config'', ''--get'', ''user.email'']) w2 \<noteq>
                  Completed 0 so fsys) \<longrightarrow>
               ''Author email (default: developer@example.com): '' \<in> set (out u'))
          \<and> (\<forall>n v d a m rest. stdin u0 = n # v # d # a # m # rest \<longrightarrow>
               (\<exists>x. lookup (fs u') (resolve (cwd e) ''pyproject.toml'') =
                  Some (File (strip_content
                    (if use_poetry st'
                     then poetry_content (package_name st') (if v = [] then ''0.1.0'' else v) d
                            (if a = [] then str_or name ''unnamed developer'' else a)
                            (if m = [] then str_or email ''developer@example.com'' else m) x
                     else hatch_content (package_name st') (if v = [] then ''0.1.0'' else v) d
                            (if a = [] then str_or name ''unnamed developer'' else a)
                            (if m = [] then str_or email ''developer@example.com'' else m) x)))))"
    if ne: "\<not> path_exists (fs u0) (resolve (cwd e) ''pyproject.toml'')"
      and ok: "create_pyproject_toml e st u0 = Inr (st', u')"
  proof -
    from create_pyproject_toml_steps [OF ne ok] obtain n v d a m gn ge w1 w2 w3 w4 where
          s: "stdin u0 = n # v # d # a # m # stdin w4"
      and w1: "w1 = u0\<lparr>out := out u0 @
                       [pointing_hand @ '' pyproject.toml not found. Let's create one.'' @ [LF],
                        ''Package name (default: '' @ get_default_package_name e @ ''): '',
                        ''Package version (default: 0.1.0): '',
                        ''Package description: ''],
                     stdin := drop 3 (stdin u0)\<rparr>"
      and g1: "get_git_config e ''user.name'' w1 = Inr (gn, w2)"
      and g2: "get_git_config e ''user.email'' w2 = Inr (ge, w3)"
      and o: "out w4 = out w3 @ [''Author name (default: '' @ str_or gn ''unnamed developer'' @ ''): '',
                               ''Author email (default: '' @ str_or ge ''developer@example.com'' @ ''): '']"
      and f: "create_pyproject_toml_files e st'
               (if v = [] then ''0.1.0'' else v) d
               (if a = [] then str_or gn ''unnamed developer'' else a)
               (if m = [] then str_or ge ''developer@example.com'' else m) w4 = Inr (st', u')"
      by blast
    from o have "''Author name (default: '' @ str_or gn ''unnamed developer'' @ ''): '' \<in> set (out w4)"
      and "''Author email (default: '' @ str_or ge ''developer@example.com'' @ ''): '' \<in> set (out w4)"
      by simp_all
    with create_pyproject_toml_files_result(4) [OF f]
    have p1: "''Author name (default: '' @ str_or gn ''unnamed developer'' @ ''): '' \<in> set (out u')"
      and p2: "''Author email (default: '' @ str_or ge ''developer@example.com'' @ ''): '' \<in> set (out u')"
      by blast+
    have d1: "''Author name (default: unnamed developer): '' \<in> set (out u')"
      if "\<forall>so fsys. run e (Argv [''git'', ''config'', ''--get'', ''user.name'']) w1 \<noteq> Completed 0 so fsys"
    proof -
      from get_git_config_result(3) [OF g1] that have "gn = None" by blast
      with p1 show ?thesis by simp
    qed
    have d2: "''Author email (default: developer@example.com): '' \<in> set (out u')"
      if "\<forall>so fsys. run e (Argv [''git'', ''config'', ''--get'', ''user.email'']) w2 \<noteq> Completed 0 so fsys"
    proof -
      from get_git_config_result(3) [OF g2] that have "ge = None" by blast
      with p2 show ?thesis by simp
    qed
    have q: "\<exists>x. lookup (fs u') (resolve (cwd e) ''pyproject.toml'') =
                  Some (File (strip_content
                    (if use_poetry st'
                     then poetry_content (package_name st') (if v' = [] then ''0.1.0'' else v') d'
                            (if a' = [] then str_or gn ''unnamed developer'' else a')
                            (if m' = [] then str_or ge ''developer@example.com'' else m') x
                     else hatch_content (package_name st') (if v' = [] then ''0.1.0'' else v') d'
                            (if a' = [] then str_or gn ''unnamed developer'' else a')
                            (if m' = [] then str_or ge ''developer@example.com'' else m') x)))"
      if "stdin u0 = n' # v' # d' # a' # m' # rest" for n' v' d' a' m' rest
    proof -
      from that s have eqs: "v = v'" "d = d'" "a = a'" "m = m'" by simp_all
      from create_pyproject_toml_files_result(3) [OF f [unfolded eqs]] show ?thesis .
    qed
    from w1 g1 g2 p1 p2 d1 d2 q show ?thesis by blast
  qed
  from a b c show ?thesis by blast
qed

theorem git_config_never_raises_witness:
  "(\<exists>w'. get_git_config ex_env_git_name ''user.email'' ex_world = Inr (None, w'))
   \<and> (\<exists>st' u'. create_pyproject_toml ex_env_git_name init ex_world_input = Inr (st', u')
        \<and> ''Author name (default: Ada Lovelace): '' \<in> set (out u')
        \<and> ''Author email (default: developer@example.com): '' \<in> set (out u')
        \<and> (\<exists>x. lookup (fs u') (resolve (cwd ex_env_git_name) ''pyproject.toml'') =
                Some (File (strip_content
                  (if use_poetry st'
                   then poetry_content (package_name st') ''0.1.0'' ''demo''
                          ''Ada Lovelace'' ''developer@example.com'' x
                   else hatch_content (package_name st') ''0.1.0'' ''demo''
                          ''Ada Lovelace'' ''developer@example.com'' x)))))"
proof -
  have gname: "get_git_config ex_env_git_name ''user.name'' v = Inr (r, v') \<Longrightarrow> r = Some ''Ada Lovelace''" for v r v'
    by (auto simp: get_git_config_def subprocess_run_def ex_env_git_name_def ex_env_def str_defs)
  have fail: "\<forall>so fsys. run ex_env_git_name (Argv [''git'', ''config'', ''--get'', ''user.email'']) v \<noteq> Completed 0 so fsys" for v
    by (simp add: ex_env_git_name_def ex_env_def)
  have ne: "\<not> path_exists (fs ex_world_input) (resolve (cwd ex_env_git_name) ''pyproject.toml'')"
    by (simp add: ex_env_git_name_def ex_world_input_def ex_defs path_defs)
  have "\<exists>st' u'. create_pyproject_toml ex_env_git_name init ex_world_input = Inr (st', u')"
    by (simp add: create_pyproject_toml_def create_pyproject_toml_files_def and_then_def input_def
        get_git_config_def subprocess_run_def make_package_dir_def touch_def makedirs_tests_def
        write_manifest_def write_file_def init_def print_info_def print_def
        str_replace_def lower_def lower_char_def ascii_uppercase_def ascii_lowercase_def
        update_conv' Let_def ex_env_git_name_def ex_world_input_def ex_defs path_defs str_defs)
  then obtain st' u' where ok: "create_pyproject_toml ex_env_git_name init ex_world_input = Inr (st', u')"
    by blast
  have inp: "stdin ex_world_input = ''My Pkg-X'' # [] # ''demo'' # [] # [] # [[]]"
    by (simp add: ex_world_input_def)
  note t = git_config_never_raises [of ex_env_git_name "''user.email''" ex_world ex_world_input init st' u']
  from t fail [of ex_world]
  have 1: "\<exists>w'. get_git_config ex_env_git_name ''user.email'' ex_world = Inr (None, w')"
    by blast
  from t ne ok obtain w1 w2 w3 name email where
        g1: "get_git_config ex_env_git_name ''user.name'' w1 = Inr (name, w2)"
    and p1: "''Author name (default: '' @ str_or name ''unnamed developer'' @ ''): '' \<in> set (out u')"
    and d2: "(\<forall>so fsys. run ex_env_git_name (Argv [''git'', ''config'', ''--get'', ''user.email'']) w2 \<noteq>
                  Completed 0 so fsys) \<longrightarrow>
               ''Author email (default: developer@example.com): '' \<in> set (out u')"
    and q: "\<forall>n v d a m rest. stdin ex_world_input = n # v # d # a # m # rest \<longrightarrow>
               (\<exists>x. lookup (fs u') (resolve (cwd ex_env_git_name) ''pyproject.toml'') =
                  Some (File (strip_content
                    (if use_poetry st'
                     then poetry_content (package_name st') (if v = [] then ''0.1.0'' else v) d
                            (if a = [] then str_or name ''unnamed developer'' else a)
                            (if m = [] then str_or email ''developer@example.com'' else m) x
                     else hatch_content (package_name st') (if v = [] then ''0.1.0'' else v) d
                            (if a = [] then str_or name ''unnamed developer'' else a)
                            (if m = [] then str_or email ''developer@example.com'' else m) x))))"
    and g2: "get_git_config ex_env_git_name ''user.email'' w2 = Inr (email, w3)"
    by blast
  from gname [OF g1] have name: "name = Some ''Ada Lovelace''" .
  from get_git_config_result(3) [OF g2] fail [of w2] have email: "email = None" by blast
  from p1 have 2: "''Author name (default: Ada Lovelace): '' \<in> set (out u')"
    by (simp add: name)
  from d2 fail [of w2] have 3: "''Author email (default: developer@example.com): '' \<in> set (out u')"
    by blast
  from q inp have "\<exists>x. lookup (fs u') (resolve (cwd ex_env_git_name) ''pyproject.toml'') =
                  Some (File (strip_content
                    (if use_poetry st'
                     then poetry_content (package_name st') (if ([]::string) = [] then ''0.1.0'' else []) ''demo''
                            (if ([]::string) = [] then str_or name ''unnamed developer'' else [])
                            (if ([]::string) = [] then str_or email ''developer@example.com'' else []) x
                     else hatch_content (package_name st') (if ([]::string) = [] then ''0.1.0'' else []) ''demo''
                            (if ([]::string) = [] then str_or name ''unnamed developer'' else [])
                            (if ([]::string) = [] then str_or email ''developer@example.com'' else []) x)))"
    by blast
  then have 4: "\<exists>x. lookup (fs u') (resolve (cwd ex_env_git_name) ''pyproject.toml'') =
                Some (File (strip_content
                  (if use_poetry st'
                   then poetry_content (package_name st') ''0.1.0'' ''demo''
                          ''Ada Lovelace'' ''developer@example.com'' x
                   else hatch_content (package_name st') ''0.1.0'' ''demo''
                          ''Ada Lovelace'' ''developer@example.com'' x)))"
    unfolding name email by (simp cong: if_cong)
  from 1 2 3 4 ok show ?thesis by blast
qed

text \<open>
  C8. The environment report. Unless \<open>site.getsitepackages()\<close> is empty, the reporter
  returns, leaves the file system alone and prints six lines of facts followed, when
  the prefix equals the base prefix (or \<open>sys\<close> has no base prefix), by the single line
  \<open>In Virtual Env     : No\<close>; when the prefixes differ, by the line with \<open>Yes\<close> and
  then the line naming the base name of the prefix directory.
\<close>

theorem environment_report:
  assumes "site_packages e \<noteq> Some []"
  shows "\<exists>sp w'.
           print_env_info e w = Inr ((), w')
         \<and> fs w' = fs w
         \<and> out w' = out w @
              [[LF] @ magnifier @ '' Python Environment Info'' @ [LF] @ replicate 30 (CHR ''='') @ [LF],
               package @ '' Python Version     : '' @ python_version e @ [LF],
               snake @ '' Python Executable  : '' @ executable e @ [LF],
               open_folder @ '' sys.prefix         : '' @ prefix e @ [LF],
               open_folder @ '' Base Prefix        : '' @
                 (case base_prefix e of None \<Rightarrow> prefix e | Some b \<Rightarrow> b) @ [LF],
               brain @ '' site-packages path : '' @ sp @ [LF]] @
              (if base_prefix e = None \<or> base_prefix e = Some (prefix e)
               then [check_mark @ '' In Virtual Env     : No'' @ [LF]]
               else [check_mark @ '' In Virtual Env     : Yes'' @ [LF],
                     folder @ '' Virtual Env Name   : '' @ path_name (prefix e) @ [LF]])"
proof (cases "site_packages e")
  case None
  then show ?thesis
    by (intro exI [of _ "''N/A''"])
       (auto simp: print_env_info_def is_virtual_environment_def print_header_def print_def Let_def)
next
  case (Some sps)
  with assms obtain p ps where "sps = p # ps" by (cases sps) auto
  with Some show ?thesis
    by (intro exI [of _ p])
       (auto simp: print_env_info_def is_virtual_environment_def print_header_def print_def Let_def)
qed

theorem environment_report_witness:
  "\<exists>sp w'.
     print_env_info ex_env ex_world = Inr ((), w')
   \<and> fs w' = fs ex_world
   \<and> out w' =
        [[LF] @ magnifier @ '' Python Environment Info'' @ [LF] @ replicate 30 (CHR ''='') @ [LF],
         package @ '' Python Version     : 3.11.4'' @ [LF],
         snake @ '' Python Executable  : /usr/bin/python3'' @ [LF],
         open_folder @ '' sys.prefix         : /usr'' @ [LF],
         open_folder @ '' Base Prefix        : /usr'' @ [LF],
         brain @ '' site-packages path : '' @ sp @ [LF],
         check_mark @ '' In Virtual Env     : No'' @ [LF]]"
proof -
  have s: "site_packages ex_env \<noteq> Some []"
    by (simp add: ex_env_def)
  show ?thesis
    using environment_report [OF s, of ex_world]
    by (simp add: ex_env_def ex_world_def)
qed

text \<open>
  C9. Whenever \<open>_detect_platform\<close> returns, the operating system type it returns is
  \<open>mac\<close>, \<open>debian\<close> or \<open>linux\<close>, never the placeholder \<open>unknown\<close>.
\<close>

theorem os_type_is_known:
  assumes "detect_platform e st w = Inr ((os_type, st'), w')"
  shows "os_type \<in> {''mac'', ''debian'', ''linux''} \<and> os_type \<noteq> ''unknown''"
  using assms
  by (auto simp: detect_platform_def choose_tool_def Let_def split: if_splits sum.splits)

theorem os_type_is_known_witness:
  "\<exists>os_type st' w'. detect_platform ex_env init ex_world_manifest = Inr ((os_type, st'), w')
     \<and> os_type \<in> {''mac'', ''debian'', ''linux''} \<and> os_type \<noteq> ''unknown''"
proof -
  have "\<exists>st' w'. detect_platform ex_env init ex_world_manifest = Inr ((''linux'', st'), w')"
    by (simp add: detect_platform_def choose_tool_def detect_project_tool_def read_text_def
                  read_file_def utf8_defs ex_defs path_defs print_def print_info_def)
  then obtain st' w' where d: "detect_platform ex_env init ex_world_manifest = Inr ((''linux'', st'), w')"
    by blast
  from os_type_is_known [OF d] d show ?thesis by blast
qed

text \<open>
  C10. When no manifest exists and the user answers the package-name prompt with a
  non-empty line, then after a run of \<open>_create_pyproject_toml\<close> that returns, the stored
  package name is the input with spaces replaced by hyphens, lowercased, with hyphens
  replaced by underscores: each space and each hyphen has become an underscore, every
  other character its lowercase form. It holds no space, no hyphen and no ASCII capital.
  The directory \<open>src/<package name>\<close> exists, and the manifest is the stripped template
  of the chosen tool with this package name in it.
\<close>

theorem stored_package_name:
  assumes "\<not> path_exists (fs w) (resolve (cwd e) ''pyproject.toml'')"
      and "stdin w = inp # rest"
      and "inp \<noteq> []"
      and "create_pyproject_toml e st w = Inr (st', w')"
  shows "package_name st' = str_replace ''-'' ''_'' (lower (str_replace '' '' ''-'' inp))
       \<and> package_name st' =
           map (\<lambda>c. if c = CHR '' '' \<or> c = CHR ''-'' then CHR ''_'' else lower_char c) inp
       \<and> CHR '' '' \<notin> set (package_name st')
       \<and> CHR ''-'' \<notin> set (package_name st')
       \<and> (\<forall>c\<in>set (package_name st'). \<not> is_upper c)
       \<and> lookup (fs w') (resolve (cwd e) (''src/'' @ package_name st')) = Some Dir
       \<and> (\<exists>v d a m x.
             lookup (fs w') (resolve (cwd e) ''pyproject.toml'') =
               Some (File (strip_content
                  (if use_poetry st' then poetry_content (package_name st') v d a m x
                   else hatch_content (package_name st') v d a m x))))"
proof -
  from create_pyproject_toml_name [OF assms(1,2,4)] assms(3)
  have n: "package_name st' = str_replace ''-'' ''_'' (lower (str_replace '' '' ''-'' inp))"
    by simp
  then have m: "package_name st' =
           map (\<lambda>c. if c = CHR '' '' \<or> c = CHR ''-'' then CHR ''_'' else lower_char c) inp"
    by (simp only: normalised_name_map)
  have c: "CHR '' '' \<notin> set (package_name st')" "CHR ''-'' \<notin> set (package_name st')"
    "\<forall>c\<in>set (package_name st'). \<not> is_upper c"
    unfolding m using normalised_chars by blast+
  from create_pyproject_toml_chain [OF assms(1,4)] obtain v d a m' w1 where
    f: "create_pyproject_toml_files e st' v d a m' w1 = Inr (st', w')" by blast
  have s: "lookup (fs w') (resolve (cwd e) (''src/'' @ package_name st')) = Some Dir"
    using f by (rule create_pyproject_toml_files_result(2))
  from create_pyproject_toml_files_result(3) [OF f]
  have p: "\<exists>v d a m x.
             lookup (fs w') (resolve (cwd e) ''pyproject.toml'') =
               Some (File (strip_content
                  (if use_poetry st' then poetry_content (package_name st') v d a m x
                   else hatch_content (package_name st') v d a m x)))"
    by blast
  from n m c s p show ?thesis by blast
qed

theorem stored_package_name_witness:
  "\<exists>st' w'. create_pyproject_toml ex_env init ex_world_input = Inr (st', w')
     \<and> package_name st' = ''my_pkg_x''
     \<and> lookup (fs w') [''home'', ''dev'', ''My Project'', ''src'', ''my_pkg_x''] = Some Dir"
proof -
  have inp: "stdin ex_world_input = ''My Pkg-X'' # [[], ''demo'', [], [], []]"
    by (simp add: ex_world_input_def)
  have ne: "''My Pkg-X'' \<noteq> []"
    by simp
  from ex_run obtain st' w' where ok: "create_pyproject_toml ex_env init ex_world_input = Inr (st', w')"
    by blast
  from stored_package_name [OF ex_no_manifest inp ne ok]
  have r: "package_name st' = str_replace ''-'' ''_'' (lower (str_replace '' '' ''-'' ''My Pkg-X''))"
    and d: "lookup (fs w') (resolve (cwd ex_env) (''src/'' @ package_name st')) = Some Dir"
    by blast+
  from r have n: "package_name st' = ''my_pkg_x''"
    by (simp only: ex_name)
  have "resolve (cwd ex_env) (''src/'' @ ''my_pkg_x'') = [''home'', ''dev'', ''My Project'', ''src'', ''my_pkg_x'']"
    by (simp add: ex_env_def resolve_def path_parts_def)
  with d have "lookup (fs w') [''home'', ''dev'', ''My Project'', ''src'', ''my_pkg_x''] = Some Dir"
    unfolding n by simp
  with n ok show ?thesis by blast
qed

end
